theory Spec2Isabelle
  imports Complex_Main "HOL-Library.Multiset"
begin

section \<open>JavaScript values used by the pages and the controller\<close>

text \<open>
  A JavaScript Number is modelled by its value: \<open>NaN\<close>, the two infinities, or a finite
  number, kept as the rational it denotes (every finite double is a rational; the two
  zeros are both \<open>Fin 0\<close>, and both are falsy).
\<close>

datatype number = NaN | Fin rat | PosInf | NegInf

text \<open>\<open>value >= 1\<close>: every comparison with \<open>NaN\<close> is false.\<close>

fun number_ge :: "number \<Rightarrow> rat \<Rightarrow> bool" where
  "number_ge NaN k = False"
| "number_ge (Fin q) k = (k \<le> q)"
| "number_ge PosInf k = True"
| "number_ge NegInf k = False"

text \<open>\<open>ToIntegerOrInfinity\<close> of a finite number truncates towards zero.\<close>

definition to_integer :: "rat \<Rightarrow> int" where
  "to_integer q = (if 0 \<le> q then \<lfloor>q\<rfloor> else \<lceil>q\<rceil>)"

text \<open>
  \<open>Array.prototype.slice(0, end)\<close>: \<open>end\<close> goes through \<open>ToIntegerOrInfinity\<close>
  (\<open>NaN\<close> is 0), a negative \<open>end\<close> counts from the length, and the result is clamped to the
  array. The result is a new array; the receiver is not written.
\<close>

definition slice_end :: "nat \<Rightarrow> number \<Rightarrow> nat" where
  "slice_end len e =
     (case e of
        NaN \<Rightarrow> 0
      | NegInf \<Rightarrow> 0
      | PosInf \<Rightarrow> len
      | Fin q \<Rightarrow>
          (let k = to_integer q
           in if k < 0 then nat (max (int len + k) 0) else nat (min k (int len))))"

definition slice0 :: "'a list \<Rightarrow> number \<Rightarrow> 'a list" where
  "slice0 xs e = take (slice_end (length xs) e) xs"

text \<open>
  \<open>Array.prototype.sort(cmp)\<close> is a stable sort (ECMAScript 2019): with a consistent
  comparator the result is the one list that is ordered by \<open>cmp\<close> and keeps elements that
  compare equal in their order of arrival. Insertion from the right computes that list:
  an element goes in front of the first element it does not compare greater than.
\<close>

fun insert_by :: "('a \<Rightarrow> 'a \<Rightarrow> rat) \<Rightarrow> 'a \<Rightarrow> 'a list \<Rightarrow> 'a list" where
  "insert_by cmp x [] = [x]"
| "insert_by cmp x (y # ys) =
     (if cmp x y \<le> 0 then x # y # ys else y # insert_by cmp x ys)"

definition array_sort :: "('a \<Rightarrow> 'a \<Rightarrow> rat) \<Rightarrow> 'a list \<Rightarrow> 'a list" where
  "array_sort cmp xs = foldr (insert_by cmp) xs []"

section \<open>The institution's job page (Jobs.tsx)\<close>

record Student =
  student_name :: string
  email :: string
  department :: string
  year :: int

text \<open>
  \<open>interface ResumeMatch\<close>. The score is a finite number; the interface has no
  \<open>experience_score\<close> and no other sub-score. The embedded \<open>job\<close> object is not read by
  the page and is left out.
\<close>

record ResumeMatch =
  student_id :: string
  job_id :: string
  match_score :: rat
  student :: Student

datatype sort_order = Asc | Desc

text \<open>
  \<open>fetchMatches\<close> and \<open>handleDelete\<close> are asynchronous: each reads the state variables
  of the render in which it was started, awaits the server, and goes on with the values
  it read then. A call in flight is kept with what it captured: the sort order for a
  fetch, the open panel for a deletion.
\<close>

datatype pending_call = Fetching string sort_order | Deleting string "string option"

text \<open>
  The component's state. Arrays are objects: \<open>matches\<close> holds a reference into \<open>heap\<close>,
  and \<open>next_ref\<close> is the first reference not yet allocated. \<open>pending\<close> holds the calls
  in flight.
\<close>

record jobs_state =
  heap :: "nat \<Rightarrow> ResumeMatch list"
  next_ref :: nat
  matches :: nat
  sortOrder :: sort_order
  topN :: number
  showMatches :: "string option"
  fetchingMatchesForJob :: "string option"
  pending :: "pending_call list"

text \<open>
  The \<open>useState\<close> initial values: no matches, descending order, top 10, no panel and
  no call in flight.
\<close>

definition initial_state :: jobs_state where
  "initial_state =
     \<lparr> heap = (\<lambda>_. []), next_ref = 1, matches = 0, sortOrder = Desc,
       topN = Fin 10, showMatches = None, fetchingMatchesForJob = None, pending = [] \<rparr>"

text \<open>Allocating an array stores it at the next free reference.\<close>

definition alloc :: "ResumeMatch list \<Rightarrow> jobs_state \<Rightarrow> nat \<times> jobs_state" where
  "alloc xs s = (next_ref s, s\<lparr> heap := (heap s)(next_ref s := xs), next_ref := Suc (next_ref s) \<rparr>)"

text \<open>
  The comparator of both sorts:
  \<open>order === 'desc' ? b.match_score - a.match_score : a.match_score - b.match_score\<close>.
\<close>

definition compare_matches :: "sort_order \<Rightarrow> ResumeMatch \<Rightarrow> ResumeMatch \<Rightarrow> rat" where
  "compare_matches order a b =
     (if order = Desc then match_score b - match_score a else match_score a - match_score b)"

text \<open>
  What \<open>fetchMatches\<close> gets from the server: no token, a response that is not ok, a body
  whose \<open>data\<close> is not an array, or the array of matches.
\<close>

datatype fetch_result = NoToken | NotOk | BadFormat | Data "ResumeMatch list"

text \<open>
  \<open>fetchMatches\<close>, from the response on. \<open>captured\<close> is the \<open>sortOrder\<close> the call read
  when it was started, which the comparator uses whatever the sort order is by now. The
  parsed array is a fresh object; \<open>sort\<close> sorts it in place and returns it, and that same
  reference becomes \<open>matches\<close>. Every failure throws, is caught, alerts, and leaves
  \<open>matches\<close> and \<open>showMatches\<close> as they were. \<open>finally\<close> clears
  \<open>fetchingMatchesForJob\<close>.
\<close>

definition fetchMatches :: "string \<Rightarrow> sort_order \<Rightarrow> fetch_result \<Rightarrow> jobs_state \<Rightarrow> jobs_state" where
  "fetchMatches jobId captured r s =
     (case r of
        Data d \<Rightarrow>
          (let (a, s1) = alloc d s;
               s2 = s1\<lparr> heap := (heap s1)(a := array_sort (compare_matches captured) (heap s1 a)) \<rparr>
           in s2\<lparr> matches := a, showMatches := Some jobId, fetchingMatchesForJob := None \<rparr>)
      | _ \<Rightarrow> s\<lparr> fetchingMatchesForJob := None \<rparr>)"

text \<open>
  \<open>handleSortChange\<close>: \<open>[...matches]\<close> is a copy, the copy is sorted in place with the new
  order, and the copy becomes \<open>matches\<close>.
\<close>

definition handleSortChange :: "sort_order \<Rightarrow> jobs_state \<Rightarrow> jobs_state" where
  "handleSortChange order s =
     (let (a, s1) = alloc (heap s (matches s)) (s\<lparr> sortOrder := order \<rparr>);
          s2 = s1\<lparr> heap := (heap s1)(a := array_sort (compare_matches order) (heap s1 a)) \<rparr>
      in s2\<lparr> matches := a \<rparr>)"

text \<open>
  \<open>handleTopNChange\<close>, on \<open>value = Number(e.target.value)\<close>: the state is written only
  when \<open>value >= 1\<close>.
\<close>

definition handleTopNChange :: "number \<Rightarrow> jobs_state \<Rightarrow> jobs_state" where
  "handleTopNChange v s = (if number_ge v 1 then s\<lparr> topN := v \<rparr> else s)"

text \<open>
  \<open>handleDelete\<close>, from the response on (the user has confirmed). \<open>captured\<close> is the
  \<open>showMatches\<close> the call read when it was started. After an ok response, when the
  deleted job is the one whose matches were shown then, the panel closes and \<open>matches\<close>
  becomes a new empty array; a response that is not ok alerts and changes nothing.
  (The list of jobs is not part of this model.)
\<close>

definition handleDelete :: "string \<Rightarrow> string option \<Rightarrow> bool \<Rightarrow> jobs_state \<Rightarrow> jobs_state" where
  "handleDelete jobId captured ok s =
     (if ok \<and> captured = Some jobId
      then (let (a, s1) = alloc [] s in s1\<lparr> matches := a, showMatches := None \<rparr>)
      else s)"

text \<open>\<open>Math.round\<close> of a finite number: the nearest integer, halves upwards.\<close>

definition math_round :: "rat \<Rightarrow> int" where
  "math_round q = \<lfloor>q + 1 / 2\<rfloor>"

text \<open>
  One data row of the CSV, before the fields are joined: name, email, department
  (each through \<open>sanitizeField\<close>, which rewrites a field without reading the array), the
  year and the rounded score. The model keeps the fields and leaves their quoting out.
\<close>

definition csv_row :: "ResumeMatch \<Rightarrow> string \<times> string \<times> string \<times> int \<times> int" where
  "csv_row m =
     (student_name (student m), email (student m), department (student m),
      year (student m), math_round (match_score m))"

text \<open>
  \<open>downloadCSV\<close>: \<open>matches.slice(0, topN)\<close> is a new array, and \<open>.map\<close> builds the rows
  from it; neither \<open>matches\<close> nor any state variable is assigned. The function returns
  the data rows and the store after the allocation of the slice.
\<close>

definition downloadCSV :: "jobs_state \<Rightarrow> (string \<times> string \<times> string \<times> int \<times> int) list \<times> jobs_state" where
  "downloadCSV s =
     (let (a, s1) = alloc (slice0 (heap s (matches s)) (topN s)) s
      in (map csv_row (heap s1 a), s1))"

text \<open>
  The table body: with no matches a single line \<open>No matching students found.\<close> and no
  slice; otherwise the rows of \<open>matches.slice(0, topN)\<close>, again a new array.
\<close>

definition render_rows :: "jobs_state \<Rightarrow> ResumeMatch list \<times> jobs_state" where
  "render_rows s =
     (if heap s (matches s) = [] then ([], s)
      else (let (a, s1) = alloc (slice0 (heap s (matches s)) (topN s)) s
            in (heap s1 a, s1)))"

text \<open>
  The events of the page: the user's actions, and the arrival of the response to the
  \<open>i\<close>-th call in flight. Starting a fetch or a deletion puts the call in flight with
  what it captures; an arrival for a call that is not in flight, or of the other kind,
  does nothing.
\<close>

datatype event =
    StartFetch string
  | FetchDone nat fetch_result
  | SortChange sort_order
  | TopNChange number
  | StartDelete string
  | DeleteDone nat bool
  | CloseMatches
  | DownloadCSV
  | Render

definition startFetch :: "string \<Rightarrow> jobs_state \<Rightarrow> jobs_state" where
  "startFetch jobId s =
     s\<lparr> pending := pending s @ [Fetching jobId (sortOrder s)], fetchingMatchesForJob := Some jobId \<rparr>"

definition startDelete :: "string \<Rightarrow> jobs_state \<Rightarrow> jobs_state" where
  "startDelete jobId s = s\<lparr> pending := pending s @ [Deleting jobId (showMatches s)] \<rparr>"

definition leave :: "nat \<Rightarrow> jobs_state \<Rightarrow> jobs_state" where
  "leave i s = s\<lparr> pending := take i (pending s) @ drop (Suc i) (pending s) \<rparr>"

definition fetchDone :: "nat \<Rightarrow> fetch_result \<Rightarrow> jobs_state \<Rightarrow> jobs_state" where
  "fetchDone i r s =
     (if i < length (pending s)
      then (case pending s ! i of
              Fetching jobId captured \<Rightarrow> fetchMatches jobId captured r (leave i s)
            | Deleting jobId captured \<Rightarrow> s)
      else s)"

definition deleteDone :: "nat \<Rightarrow> bool \<Rightarrow> jobs_state \<Rightarrow> jobs_state" where
  "deleteDone i ok s =
     (if i < length (pending s)
      then (case pending s ! i of
              Deleting jobId captured \<Rightarrow> handleDelete jobId captured ok (leave i s)
            | Fetching jobId captured \<Rightarrow> s)
      else s)"

fun step :: "event \<Rightarrow> jobs_state \<Rightarrow> jobs_state" where
  "step (StartFetch j) s = startFetch j s"
| "step (FetchDone i r) s = fetchDone i r s"
| "step (SortChange order) s = handleSortChange order s"
| "step (TopNChange v) s = handleTopNChange v s"
| "step (StartDelete j) s = startDelete j s"
| "step (DeleteDone i ok) s = deleteDone i ok s"
| "step CloseMatches s = s\<lparr> showMatches := None \<rparr>"
| "step DownloadCSV s = snd (downloadCSV s)"
| "step Render s = snd (render_rows s)"

definition run :: "event list \<Rightarrow> jobs_state" where
  "run evs = fold step evs initial_state"

text \<open>The array that \<open>matches\<close> refers to.\<close>

definition shown_matches :: "jobs_state \<Rightarrow> ResumeMatch list" where
  "shown_matches s = heap s (matches s)"

text \<open>The order a sort by \<open>compare_matches\<close> aims at: by score, downwards or upwards.\<close>

definition in_order :: "sort_order \<Rightarrow> ResumeMatch \<Rightarrow> ResumeMatch \<Rightarrow> bool" where
  "in_order order a b =
     (if order = Desc then match_score b \<le> match_score a else match_score a \<le> match_score b)"

text \<open>The key that \<open>compare_matches\<close> sorts upwards by.\<close>

definition sort_key_of :: "sort_order \<Rightarrow> ResumeMatch \<Rightarrow> rat" where
  "sort_key_of order m = (if order = Desc then - match_score m else match_score m)"


text \<open>A match of a third-year student, for the worked examples below.\<close>

definition a_match :: "string \<Rightarrow> rat \<Rightarrow> ResumeMatch" where
  "a_match sid sc =
     \<lparr> student_id = sid, job_id = ''j1'', match_score = sc,
       student = \<lparr> student_name = sid, email = sid @ ''@example.org'',
                   department = ''Information Technology (IT)'', year = 3 \<rparr> \<rparr>"

section \<open>The analysis report of the student's dashboard (individualDashboard.tsx)\<close>

text \<open>
  A text is a list of characters with codes below 256. The regular expression's \<open>\s\<close>
  and \<open>trim()\<close> take as white space the tab, the line terminators, the space and the
  no-break space; \<open>\w\<close> is a letter, a digit or the underscore.
\<close>

definition is_space :: "char \<Rightarrow> bool" where
  "is_space c =
     (c = CHR 0x09 \<or> c = CHR 0x0A \<or> c = CHR 0x0B \<or> c = CHR 0x0C \<or> c = CHR 0x0D
      \<or> c = CHR '' '' \<or> c = CHR 0xA0)"

definition is_word :: "char \<Rightarrow> bool" where
  "is_word c =
     (let n = (of_char c :: nat)
      in (97 \<le> n \<and> n \<le> 122) \<or> (65 \<le> n \<and> n \<le> 90) \<or> (48 \<le> n \<and> n \<le> 57) \<or> n = 95)"






















section \<open>The individuals' controller (individualController.js)\<close>

text \<open>
  An awaited call either throws (the promise rejects) or returns a value. What the
  external services do (the database driver, Cloudinary, bcrypt) is not in the
  repository; the model takes their outcomes as inputs.
\<close>

datatype 'a outcome = Throws | Returns 'a

text \<open>
  The \<open>Individual\<close> document with the fields the controller writes (\<open>password\<close> holds the
  hash). The score fields are Numbers; \<open>None\<close> is \<open>undefined\<close>.
\<close>

record Individual =
  ind_id :: string
  ind_name :: string
  ind_email :: string
  ind_password :: string
  ind_college :: string
  ind_year :: string
  ind_department :: string
  resumeFilePath :: "string option"
  analysisFilePath :: "string option"
  analysisResumeScore :: number
  analysisAtsScore :: number
  jobRole :: "string option"
  jobCategory :: "string option"
  atsScore :: "number option"
  reportFilePath :: "string option"

text \<open>The two collections: the individuals, and the identifiers of the institutions.\<close>

record database =
  individuals :: "Individual list"
  institutions :: "string list"

text \<open>\<open>req.file\<close> as multer's memory storage leaves it; \<open>buffer\<close> is the buffer's length.\<close>

record upload_file =
  buffer :: "nat option"
  mimetype :: string
  file_size :: nat

text \<open>\<open>req.body\<close> and \<open>req.file\<close> of a registration; an absent field is \<open>undefined\<close>.\<close>

record register_request =
  name :: "string option"
  email_field :: "string option"
  password :: "string option"
  college :: "string option"
  year_field :: "string option"
  department_field :: "string option"
  req_file :: "upload_file option"

record response =
  status :: nat
  message :: string

text \<open>\<open>!x\<close> for a field that is a string or \<open>undefined\<close>.\<close>

definition falsy :: "string option \<Rightarrow> bool" where
  "falsy x = (case x of None \<Rightarrow> True | Some v \<Rightarrow> v = [])"

text \<open>What the services do during one registration.\<close>

record register_world =
  findOne_throws :: bool
  findById_throws :: bool
  upload_result :: "string outcome"
  hash_result :: "string outcome"
  save_result :: "string outcome"

text \<open>\<open>Individual.findOne({ email })\<close> and \<open>Institution.findById(college)\<close>.\<close>

definition findOne :: "database \<Rightarrow> string \<Rightarrow> Individual option" where
  "findOne db e = find (\<lambda>u. ind_email u = e) (individuals db)"

definition findById :: "database \<Rightarrow> string \<Rightarrow> bool" where
  "findById db c = (c \<in> set (institutions db))"

definition max_file_size :: nat where
  "max_file_size = 5 * 1024 * 1024"

text \<open>
  The new document; \<open>save\<close> returns its identifier. (The schema's casts and defaults
  beyond the two scores are the database's business.)
\<close>

definition new_user :: "register_request \<Rightarrow> string \<Rightarrow> string \<Rightarrow> string \<Rightarrow> Individual" where
  "new_user r hashed url uid =
     \<lparr> ind_id = uid, ind_name = the (name r), ind_email = the (email_field r),
       ind_password = hashed, ind_college = the (college r), ind_year = the (year_field r),
       ind_department = the (department_field r), resumeFilePath = Some url,
       analysisFilePath = None, analysisResumeScore = Fin 0, analysisAtsScore = Fin 0,
       jobRole = None, jobCategory = None, atsScore = None, reportFilePath = None \<rparr>"

text \<open>
  \<open>registerIndividual\<close>, check by check in the order of the source. Every \<open>return
  res.status(400)\<close> leaves before anything is written; an exception of an awaited call
  ends in the outer \<open>catch\<close> with status 500, a failed upload in its own \<open>catch\<close> with
  status 500; only \<open>newUser.save()\<close> adds a document.
\<close>

definition registerIndividual ::
  "register_world \<Rightarrow> database \<Rightarrow> register_request \<Rightarrow> response \<times> database" where
  "registerIndividual w db r =
     (if falsy (name r) \<or> falsy (email_field r) \<or> falsy (password r) \<or> falsy (college r)
         \<or> falsy (year_field r) \<or> falsy (department_field r)
      then (\<lparr> status = 400, message = ''All fields are required'' \<rparr>, db)
      else if findOne_throws w
      then (\<lparr> status = 500, message = ''Server error during registration'' \<rparr>, db)
      else if findOne db (the (email_field r)) \<noteq> None
      then (\<lparr> status = 400, message = ''User already exists'' \<rparr>, db)
      else if findById_throws w
      then (\<lparr> status = 500, message = ''Server error during registration'' \<rparr>, db)
      else if \<not> findById db (the (college r))
      then (\<lparr> status = 400, message = ''Invalid college ID'' \<rparr>, db)
      else (case req_file r of
              None \<Rightarrow> (\<lparr> status = 400, message = ''Resume file is required'' \<rparr>, db)
            | Some f \<Rightarrow>
                if buffer f = None \<or> buffer f = Some 0
                then (\<lparr> status = 400, message = ''Uploaded file is empty'' \<rparr>, db)
                else if mimetype f \<noteq> ''application/pdf''
                then (\<lparr> status = 400, message = ''Only PDF files are allowed'' \<rparr>, db)
                else if file_size f > max_file_size
                then (\<lparr> status = 400, message = ''File size exceeds 5MB limit'' \<rparr>, db)
                else (case upload_result w of
                        Throws \<Rightarrow>
                          (\<lparr> status = 500, message = ''Failed to upload resume to Cloudinary'' \<rparr>, db)
                      | Returns url \<Rightarrow>
                          (case hash_result w of
                             Throws \<Rightarrow>
                               (\<lparr> status = 500, message = ''Server error during registration'' \<rparr>, db)
                           | Returns hashed \<Rightarrow>
                               (case save_result w of
                                  Throws \<Rightarrow>
                                    (\<lparr> status = 500, message = ''Server error during registration'' \<rparr>,
                                     db)
                                | Returns uid \<Rightarrow>
                                    (\<lparr> status = 201, message = ''User registered successfully'' \<rparr>,
                                     db\<lparr> individuals := individuals db @ [new_user r hashed url uid] \<rparr>))))))"

text \<open>
  The checks of \<open>registerIndividual\<close>, as one predicate: every field present, the email
  not taken, the college known, a file attached, its buffer not empty, its type PDF and
  its size at most 5 MB.
\<close>

definition checks_pass :: "database \<Rightarrow> register_request \<Rightarrow> bool" where
  "checks_pass db r =
     (\<not> falsy (name r) \<and> \<not> falsy (email_field r) \<and> \<not> falsy (password r) \<and> \<not> falsy (college r)
      \<and> \<not> falsy (year_field r) \<and> \<not> falsy (department_field r)
      \<and> findOne db (the (email_field r)) = None
      \<and> findById db (the (college r))
      \<and> (case req_file r of
            None \<Rightarrow> False
          | Some f \<Rightarrow> buffer f \<noteq> None \<and> buffer f \<noteq> Some 0 \<and> mimetype f = ''application/pdf''
                      \<and> file_size f \<le> max_file_size))"

text \<open>
  The route \<open>/register\<close> runs \<open>upload.single('resume')\<close> first: its \<open>fileFilter\<close> refuses a
  file that is not a PDF and its \<open>limits\<close> a file over 5 MB, each by passing an error on
  instead of calling the controller. (What the application answers to such an error,
  and the \<open>validateUser\<close> middleware that runs next, are not in the repository;
  \<open>validateUser\<close> is a parameter that answers or lets the request through.)
\<close>

datatype route_result = Responded response | PassedError string

definition upload_single :: "upload_file option \<Rightarrow> string option" where
  "upload_single f =
     (case f of
        None \<Rightarrow> None
      | Some u \<Rightarrow>
          if mimetype u \<noteq> ''application/pdf'' then Some ''Only PDF files are allowed''
          else if file_size u > max_file_size then Some ''File too large''
          else None)"

definition register_route ::
  "(register_request \<Rightarrow> response option) \<Rightarrow> register_world \<Rightarrow> database \<Rightarrow> register_request
     \<Rightarrow> route_result \<times> database" where
  "register_route validateUser w db r =
     (case upload_single (req_file r) of
        Some e \<Rightarrow> (PassedError e, db)
      | None \<Rightarrow>
          (case validateUser r of
             Some resp \<Rightarrow> (Responded resp, db)
           | None \<Rightarrow> (Responded (fst (registerIndividual w db r)), snd (registerIndividual w db r))))"

text \<open>
  An integer as a Number. A Number is a double: an integer below 2^53 is itself; a
  larger one is rounded to 53 significant bits, to the nearest one and on a tie to the
  even one, and is \<open>Infinity\<close> when the rounded value reaches 2^1024. \<open>excess_bits\<close> is
  the number of low bits that do not fit.
\<close>

function excess_bits :: "nat \<Rightarrow> nat" where
  "excess_bits n = (if n < 2 ^ 53 then 0 else Suc (excess_bits (n div 2)))"
  by pat_completeness auto
termination
  by (relation "measure id") auto

declare excess_bits.simps [simp del]

definition round_to_double :: "nat \<Rightarrow> nat option" where
  "round_to_double n =
     (let e = excess_bits n;
          q = n div 2 ^ e;
          r = n mod 2 ^ e;
          q' = (if 2 ^ e < 2 * r \<or> (2 * r = 2 ^ e \<and> odd q) then q + 1 else q);
          v = q' * 2 ^ e
      in if 2 ^ 1024 \<le> v then None else Some v)"

definition to_double :: "bool \<Rightarrow> nat \<Rightarrow> number" where
  "to_double negative n =
     (case round_to_double n of
        None \<Rightarrow> if negative then NegInf else PosInf
      | Some v \<Rightarrow> Fin (if negative then - rat_of_nat v else rat_of_nat v))"

text \<open>
  \<open>parseInt(x, 10)\<close>: \<open>undefined\<close> is first turned into the text \<open>undefined\<close>; leading
  white space is skipped, one sign is read, and the longest run of decimal digits that
  follows is the number, as a Number. Without a digit the result is \<open>NaN\<close>. (With the
  radix given, a prefix \<open>0x\<close> is not special. Past twenty significant digits the
  language lets an engine put zeros for the further digits before it rounds; the model
  rounds the integer the digits denote.)
\<close>

definition is_digit :: "char \<Rightarrow> bool" where
  "is_digit c = (48 \<le> (of_char c :: nat) \<and> (of_char c :: nat) \<le> 57)"

definition digits_value :: "string \<Rightarrow> nat" where
  "digits_value ds = fold (\<lambda>c n. 10 * n + (of_char c - 48)) ds 0"

definition parseInt10 :: "string option \<Rightarrow> number" where
  "parseInt10 x =
     (let s = dropWhile is_space (case x of None \<Rightarrow> ''undefined'' | Some v \<Rightarrow> v);
          negative = (s \<noteq> [] \<and> hd s = CHR ''-'');
          unsigned = (if s \<noteq> [] \<and> (hd s = CHR ''-'' \<or> hd s = CHR ''+'') then tl s else s);
          ds = takeWhile is_digit unsigned
      in if ds = [] then NaN else to_double negative (digits_value ds))"

text \<open>\<open>n || 0\<close> for a Number: \<open>NaN\<close> and zero are falsy and give 0; an infinity stays.\<close>

definition or_zero :: "number \<Rightarrow> number" where
  "or_zero n = (case n of NaN \<Rightarrow> Fin 0 | Fin q \<Rightarrow> Fin q | PosInf \<Rightarrow> PosInf | NegInf \<Rightarrow> NegInf)"

text \<open>
  A Number in the JSON of a response: \<open>res.json\<close> writes a finite number as it is and
  \<open>NaN\<close> and the infinities as \<open>null\<close>.
\<close>

datatype json_number = JsonNull | JsonNumber rat

definition to_json :: "number \<Rightarrow> json_number" where
  "to_json n = (case n of Fin q \<Rightarrow> JsonNumber q | _ \<Rightarrow> JsonNull)"

text \<open>\<open>a || b || ''\<close> for two texts that may be \<open>undefined\<close>.\<close>

definition or_text :: "string option \<Rightarrow> string option \<Rightarrow> string" where
  "or_text a b = (if \<not> falsy a then the a else if \<not> falsy b then the b else [])"

text \<open>
  \<open>getCloudinaryPublicId\<close>: the first place where \<open>/resumes/\<close> is followed by at least
  one character other than a dot and a slash; the identifier is \<open>resumes/\<close> and the run
  of such characters.
\<close>

fun getCloudinaryPublicId :: "string \<Rightarrow> string option" where
  "getCloudinaryPublicId [] = None"
| "getCloudinaryPublicId (c # cs) =
     (let m = takeWhile (\<lambda>x. x \<noteq> CHR ''.'' \<and> x \<noteq> CHR ''/'') (drop 9 (c # cs))
      in if take 9 (c # cs) = ''/resumes/'' \<and> m \<noteq> [] then Some (''resumes/'' @ m)
         else getCloudinaryPublicId cs)"

text \<open>The request of \<open>/upload-report/:id\<close>: \<open>user_id\<close> is \<open>req.user.id\<close>.\<close>

record report_request =
  params_id :: string
  user_id :: string
  report_file :: "upload_file option"
  analysisResumeScore_field :: "string option"
  analysisAtsScore_field :: "string option"
  jobRole_field :: "string option"
  jobCategory_field :: "string option"

record report_world =
  lookup_throws :: bool
  destroy_throws :: bool
  report_upload_result :: "string outcome"
  report_save_throws :: bool

text \<open>The response: the status, and with status 200 the stored scores as JSON.\<close>

record report_response =
  report_status :: nat
  report_message :: string
  returned_resume_score :: "json_number option"
  returned_ats_score :: "json_number option"

definition failure :: "nat \<Rightarrow> string \<Rightarrow> report_response" where
  "failure st msg =
     \<lparr> report_status = st, report_message = msg, returned_resume_score = None,
       returned_ats_score = None \<rparr>"

text \<open>The assignments to the user document after the upload.\<close>

definition update_user :: "report_request \<Rightarrow> string \<Rightarrow> Individual \<Rightarrow> Individual" where
  "update_user r url user =
     user\<lparr> analysisFilePath := Some url,
           analysisResumeScore := or_zero (parseInt10 (analysisResumeScore_field r)),
           analysisAtsScore := or_zero (parseInt10 (analysisAtsScore_field r)),
           jobRole := Some (or_text (jobRole_field r) (jobRole user)),
           jobCategory := Some (or_text (jobCategory_field r) (jobCategory user)),
           atsScore := None,
           reportFilePath := None \<rparr>"

text \<open>
  \<open>uploadAnalysisReport\<close>: 403 for another user's id, 404 for an unknown user, 400
  without a file, 500 when an awaited call throws; otherwise the user document is
  updated and saved, and the answer is 200 with the saved scores.
\<close>

definition uploadAnalysisReport ::
  "report_world \<Rightarrow> database \<Rightarrow> report_request \<Rightarrow> report_response \<times> database" where
  "uploadAnalysisReport w db r =
     (if user_id r \<noteq> params_id r then (failure 403 ''Unauthorized'', db)
      else if lookup_throws w then (failure 500 ''Server error'', db)
      else (case find (\<lambda>u. ind_id u = params_id r) (individuals db) of
              None \<Rightarrow> (failure 404 ''User not found'', db)
            | Some user \<Rightarrow>
                if report_file r = None then (failure 400 ''No file uploaded'', db)
                else if \<not> falsy (analysisFilePath user)
                        \<and> getCloudinaryPublicId (the (analysisFilePath user)) \<noteq> None
                        \<and> destroy_throws w
                then (failure 500 ''Server error'', db)
                else (case report_upload_result w of
                        Throws \<Rightarrow> (failure 500 ''Failed to upload report to Cloudinary'', db)
                      | Returns url \<Rightarrow>
                          if report_save_throws w then (failure 500 ''Server error'', db)
                          else
                            (\<lparr> report_status = 200,
                               report_message = ''Analysis report uploaded successfully'',
                               returned_resume_score =
                                 Some (to_json (analysisResumeScore (update_user r url user))),
                               returned_ats_score =
                                 Some (to_json (analysisAtsScore (update_user r url user))) \<rparr>,
                             db\<lparr> individuals :=
                                   map (\<lambda>u. if ind_id u = params_id r then update_user r url user else u)
                                     (individuals db) \<rparr>))))"

text \<open>A user and a request for the worked examples.\<close>

definition a_user :: Individual where
  "a_user =
     \<lparr> ind_id = ''u1'', ind_name = ''Asha'', ind_email = ''asha@example.org'',
       ind_password = ''hash'', ind_college = ''c1'', ind_year = ''3'',
       ind_department = ''Information Technology (IT)'', resumeFilePath = None,
       analysisFilePath = None, analysisResumeScore = Fin 72, analysisAtsScore = Fin 64,
       jobRole = None, jobCategory = None, atsScore = None, reportFilePath = None \<rparr>"

definition a_pdf :: upload_file where
  "a_pdf = \<lparr> buffer = Some 2048, mimetype = ''application/pdf'', file_size = 2048 \<rparr>"

definition a_report_request :: "string option \<Rightarrow> report_request" where
  "a_report_request score =
     \<lparr> params_id = ''u1'', user_id = ''u1'', report_file = Some a_pdf,
       analysisResumeScore_field = score, analysisAtsScore_field = Some ''64'',
       jobRole_field = Some ''Data Scientist'',
       jobCategory_field = Some ''Data Science and Analytics'' \<rparr>"

definition calm :: report_world where
  "calm =
     \<lparr> lookup_throws = False, destroy_throws = False,
       report_upload_result = Returns ''https://res.example.org/analysis_reports/r1.pdf'',
       report_save_throws = False \<rparr>"

definition a_database :: database where
  "a_database = \<lparr> individuals = [a_user], institutions = [''c1''] \<rparr>"

definition a_register_request :: "string \<Rightarrow> register_request" where
  "a_register_request mime =
     \<lparr> name = Some ''Ravi'', email_field = Some ''ravi@example.org'', password = Some ''secret'',
       college = Some ''c1'', year_field = Some ''2'',
       department_field = Some ''Civil Engineering'',
       req_file = Some \<lparr> buffer = Some 2048, mimetype = mime, file_size = 2048 \<rparr> \<rparr>"

definition fair :: register_world where
  "fair =
     \<lparr> findOne_throws = False, findById_throws = False,
       upload_result = Returns ''https://res.example.org/resumes/Ravi_1.pdf'',
       hash_result = Returns ''hash2'', save_result = Returns ''u2'' \<rparr>"

section \<open>The matching engine\<close>

text \<open>
  The scoring service that computes the matches (\<open>backend-flask\<close>) is not among the
  sources: the page and the controller above only store and show its numbers. The
  definitions of this section are written from the specification, sections 3 to 4.9 and
  6 to 7. Scores are real numbers.
\<close>

datatype engine_error = ExtractionEmpty | VocabularyMismatch

text \<open>
  Modelled from the spec: the lower-casing of section 4.1 (the normalizer is part of
  the missing service). A capital letter becomes its small letter; other characters stay.
\<close>

definition to_lower :: "char \<Rightarrow> char" where
  "to_lower c =
     (if 65 \<le> (of_char c :: nat) \<and> (of_char c :: nat) \<le> 90
      then char_of ((of_char c :: nat) + 32) else c)"

text \<open>
  Modelled from the spec: the steps of the missing normalizer (section 4.1). A letter
  or digit is kept in lower case, every other character is a word boundary, and a run
  of boundaries is one space.
\<close>

definition is_alnum :: "char \<Rightarrow> bool" where
  "is_alnum c = (is_word c \<and> c \<noteq> CHR ''_'')"

definition normalize_char :: "char \<Rightarrow> char" where
  "normalize_char c = (if is_alnum c then to_lower c else CHR '' '')"

fun collapse :: "string \<Rightarrow> string" where
  "collapse (a # b # cs) =
     (if a = CHR '' '' \<and> b = CHR '' '' then collapse (b # cs) else a # collapse (b # cs))"
| "collapse cs = cs"

text \<open>
  Modelled from the spec: the Text Normalizer of section 4.1, which is part of the
  missing service. The text is lower-cased, punctuation and white space become word
  boundaries, and runs of them collapse; a text that is empty or shorter than the
  minimum length fails with \<open>ExtractionEmpty\<close>.
\<close>

definition text_normalizer :: "nat \<Rightarrow> string \<Rightarrow> engine_error + string" where
  "text_normalizer min_length raw =
     (if raw = [] \<or> length raw < min_length then Inl ExtractionEmpty
      else Inr (collapse (map normalize_char raw)))"

text \<open>
  Modelled from the spec: the data model of section 3, as far as the scores read it
  (the missing service owns these documents). An experience entry whose dates could
  not be read has \<open>dates = None\<close>; an entry that is still current has no end. Dates
  are in years.
\<close>

record ExperienceEntry =
  role_title :: string
  dates :: "(real \<times> real option) option"

record ResumeDocument =
  resume_id :: string
  normalized_text :: string
  skills :: "string list"
  experience :: "ExperienceEntry list"
  features :: "real list"

record JobPosting =
  posting_id :: string
  posting_title :: string
  required_skills :: "string list"
  posting_features :: "real list"

record MatchResult =
  mr_student_id :: string
  mr_job_id :: string
  mr_match_score :: real
  mr_similarity_score :: real
  mr_keyword_score :: real
  mr_experience_score :: real

text \<open>
  Modelled from the spec: the configuration of a deployment of the missing service
  (sections 4.1, 4.5, 4.6 and 4.8): the three weights of the aggregate, the weighted
  years at which experience saturates, the date of the computation, the recency and
  role-relevance factors, the taxonomy as the map from a skill to its canonical name,
  and the normalizer's minimum length.
\<close>

record engine_config =
  w_similarity :: real
  w_keyword :: real
  w_experience :: real
  saturation_years :: real
  today :: real
  recency :: "real \<Rightarrow> real"
  relevance :: "string \<Rightarrow> string \<Rightarrow> real"
  taxonomy :: "string \<Rightarrow> string"
  min_text_length :: nat

text \<open>
  Modelled from the spec: the weights of section 4.8 are shares of the aggregate of the
  missing service: none is negative and they sum to 1; the saturation is positive.
\<close>

definition valid_config :: "engine_config \<Rightarrow> bool" where
  "valid_config c =
     (0 \<le> w_similarity c \<and> 0 \<le> w_keyword c \<and> 0 \<le> w_experience c
      \<and> w_similarity c + w_keyword c + w_experience c = 1 \<and> 0 < saturation_years c)"

text \<open>
  Modelled from the spec: the inner product and the length of the vectors that the
  missing Vectorizer builds (section 4.3).
\<close>

definition dot :: "real list \<Rightarrow> real list \<Rightarrow> real" where
  "dot a b = sum_list (map (\<lambda>p. fst p * snd p) (zip a b))"

definition norm2 :: "real list \<Rightarrow> real" where
  "norm2 a = sqrt (dot a a)"

text \<open>
  Modelled from the spec: the Similarity Scorer of section 4.4. The cosine of the two
  vectors is mapped linearly to [0, 100], from [0, 1] when no vector has a negative
  component and from [-1, 1] otherwise; with an all-zero vector the score is 0.
\<close>

definition cosine :: "real list \<Rightarrow> real list \<Rightarrow> real" where
  "cosine a b = dot a b / (norm2 a * norm2 b)"

definition similarity_score :: "real list \<Rightarrow> real list \<Rightarrow> real" where
  "similarity_score a b =
     (if norm2 a = 0 \<or> norm2 b = 0 then 0
      else if list_all (\<lambda>x. 0 \<le> x) a \<and> list_all (\<lambda>x. 0 \<le> x) b then 100 * cosine a b
      else 50 * (cosine a b + 1))"

text \<open>
  Modelled from the spec: the formula of the missing Keyword Matcher as section 4.5
  writes it, on the canonical names of the skills:
  \<open>100 * |resume_skills \<inter> job_skills| / max(1, |job_skills|)\<close>.
\<close>

definition keyword_formula :: "(string \<Rightarrow> string) \<Rightarrow> string list \<Rightarrow> string list \<Rightarrow> real" where
  "keyword_formula canon rs js =
     100 * real (card (canon ` set rs \<inter> canon ` set js)) / real (max 1 (card (canon ` set js)))"

text \<open>
  Modelled from the spec: the Keyword Matcher of section 4.5, with its stated policy
  that an empty set of job requirements scores 100, and the formula otherwise.
\<close>

definition keyword_score :: "(string \<Rightarrow> string) \<Rightarrow> string list \<Rightarrow> string list \<Rightarrow> real" where
  "keyword_score canon rs js = (if js = [] then 100 else keyword_formula canon rs js)"

text \<open>
  Modelled from the spec: the taxonomy of the scenario of section 8, which has no
  synonyms and ignores case (the taxonomy source is not in the repository).
\<close>

definition fold_case :: "string \<Rightarrow> string" where
  "fold_case s = map to_lower s"

text \<open>
  Modelled from the spec: the Experience Weigher of section 4.6. An entry weighs its
  duration in years times the recency factor of the years since its end times the
  relevance of its role to the job; an entry without readable dates weighs nothing. The
  sum is scaled so that the saturation is 100, and clipped to [0, 100].
\<close>

definition duration_years :: "real \<Rightarrow> ExperienceEntry \<Rightarrow> real" where
  "duration_years now e =
     (case dates e of
        None \<Rightarrow> 0
      | Some (start, until) \<Rightarrow> max 0 ((case until of None \<Rightarrow> now | Some u \<Rightarrow> u) - start))"

definition years_since_end :: "real \<Rightarrow> ExperienceEntry \<Rightarrow> real" where
  "years_since_end now e =
     (case dates e of
        None \<Rightarrow> 0
      | Some (start, until) \<Rightarrow> (case until of None \<Rightarrow> 0 | Some u \<Rightarrow> max 0 (now - u)))"

definition entry_weight :: "engine_config \<Rightarrow> JobPosting \<Rightarrow> ExperienceEntry \<Rightarrow> real" where
  "entry_weight c j e =
     duration_years (today c) e * recency c (years_since_end (today c) e)
       * relevance c (role_title e) (posting_title j)"

definition clip :: "real \<Rightarrow> real" where
  "clip x = max 0 (min 100 x)"

definition experience_score :: "engine_config \<Rightarrow> ResumeDocument \<Rightarrow> JobPosting \<Rightarrow> real" where
  "experience_score c r j =
     clip (100 * sum_list (map (entry_weight c j) (experience r)) / saturation_years c)"

text \<open>
  Modelled from the spec: \<open>score_match\<close> of sections 4.8 and 6. Vectors of different
  term spaces are the failure \<open>VocabularyMismatch\<close>; otherwise the result holds the
  three sub-scores and their weighted sum.
\<close>

definition score_match :: "engine_config \<Rightarrow> ResumeDocument \<Rightarrow> JobPosting \<Rightarrow> engine_error + MatchResult" where
  "score_match c r j =
     (if length (features r) \<noteq> length (posting_features j) then Inl VocabularyMismatch
      else
        (let s = similarity_score (features r) (posting_features j);
             k = keyword_score (taxonomy c) (skills r) (required_skills j);
             e = experience_score c r j
         in Inr \<lparr> mr_student_id = resume_id r, mr_job_id = posting_id j,
                  mr_match_score = w_similarity c * s + w_keyword c * k + w_experience c * e,
                  mr_similarity_score = s, mr_keyword_score = k, mr_experience_score = e \<rparr>))"

text \<open>
  Modelled from the spec: scoring from raw text. The resume's text goes through the
  normalizer first, and its failure is the result; \<open>extract\<close> stands for the Feature
  Extractor and the Vectorizer of sections 4.2 and 4.3, which build the document from
  the normalized text.
\<close>

definition score_text ::
  "engine_config \<Rightarrow> (string \<Rightarrow> ResumeDocument) \<Rightarrow> string \<Rightarrow> JobPosting \<Rightarrow> engine_error + MatchResult" where
  "score_text c extract raw j =
     (case text_normalizer (min_text_length c) raw of
        Inl err \<Rightarrow> Inl err
      | Inr t \<Rightarrow> score_match c (extract t) j)"

text \<open>A configuration, a resume and a job for the worked examples.\<close>

definition a_config :: engine_config where
  "a_config =
     \<lparr> w_similarity = 2 / 5, w_keyword = 2 / 5, w_experience = 1 / 5, saturation_years = 8,
       today = 2025, recency = (\<lambda>y. 1 / (1 + y)), relevance = (\<lambda>role title. 1),
       taxonomy = fold_case, min_text_length = 20 \<rparr>"

definition a_resume :: ResumeDocument where
  "a_resume =
     \<lparr> resume_id = ''s1'', normalized_text = ''python and sql developer'',
       skills = [''Python'', ''SQL''],
       experience = [\<lparr> role_title = ''Developer'', dates = Some (2020, Some 2024) \<rparr>,
                     \<lparr> role_title = ''Intern'', dates = None \<rparr>],
       features = [3, 4] \<rparr>"

definition a_job :: JobPosting where
  "a_job =
     \<lparr> posting_id = ''j1'', posting_title = ''Data Engineer'',
       required_skills = [''python'', ''sql'', ''spark''], posting_features = [4, 3] \<rparr>"

section \<open>Sorting the matches\<close>

text \<open>The comparator sort is the library's stable insertion sort by \<open>sort_key_of\<close>.\<close>

lemma insert_by_insort:
  "insert_by (compare_matches order) x ys = insort_key (sort_key_of order) x ys"
  by (induction ys) (auto simp: compare_matches_def sort_key_of_def)

lemma array_sort_sort_key:
  "array_sort (compare_matches order) xs = sort_key (sort_key_of order) xs"
  by (induction xs) (simp_all add: array_sort_def insert_by_insort)

lemma mset_array_sort: "mset (array_sort (compare_matches order) xs) = mset xs"
  by (simp add: array_sort_sort_key)

lemma in_order_array_sort:
  "sorted_wrt (in_order order) (array_sort (compare_matches order) xs)"
proof -
  have "sorted (map (sort_key_of order) (array_sort (compare_matches order) xs))"
    by (simp add: array_sort_sort_key)
  moreover have "in_order order = (\<lambda>a b. sort_key_of order a \<le> sort_key_of order b)"
    by (intro ext) (simp add: in_order_def sort_key_of_def)
  ultimately show ?thesis
    by (simp add: sorted_map)
qed


lemma array_sort_stable:
  "filter (\<lambda>m. match_score m = k) (array_sort (compare_matches order) xs)
     = filter (\<lambda>m. match_score m = k) xs"
proof -
  let ?k = "if order = Desc then - k else k"
  have "filter (\<lambda>m. sort_key_of order m = ?k) (sort_key (sort_key_of order) xs)
        = filter (\<lambda>m. sort_key_of order m = ?k) xs"
    by (rule sort_key_stable)
  moreover have "(\<lambda>m. sort_key_of order m = ?k) = (\<lambda>m. match_score m = k)"
    by (auto simp: sort_key_of_def)
  ultimately show ?thesis by (simp add: array_sort_sort_key)
qed


lemma shown_fetchMatches:
  "shown_matches (fetchMatches j captured (Data d) s) = array_sort (compare_matches captured) d"
  by (simp add: shown_matches_def fetchMatches_def alloc_def)

lemma shown_handleSortChange:
  "shown_matches (handleSortChange order s) = array_sort (compare_matches order) (shown_matches s)"
  by (simp add: shown_matches_def handleSortChange_def alloc_def)

lemma sortOrder_fetchMatches: "sortOrder (fetchMatches j captured r s) = sortOrder s"
  by (simp add: fetchMatches_def alloc_def split: fetch_result.splits)

lemma sortOrder_handleSortChange: "sortOrder (handleSortChange order s) = order"
  by (simp add: handleSortChange_def alloc_def)

lemma shown_fetchDone:
  "i < length (pending s) \<Longrightarrow> pending s ! i = Fetching j captured \<Longrightarrow>
   shown_matches (step (FetchDone i (Data d)) s) = array_sort (compare_matches captured) d
   \<and> sortOrder (step (FetchDone i (Data d)) s) = sortOrder s"
  by (simp add: fetchDone_def shown_fetchMatches sortOrder_fetchMatches leave_def)

text \<open>
  C2 (as the code has it). \<open>fetchMatches\<close> and \<open>handleSortChange\<close> order the matches by
  \<open>match_score\<close> alone, downwards for \<open>'desc'\<close> and upwards for \<open>'asc'\<close>:
  \<open>handleSortChange\<close> by the order just chosen, \<open>fetchMatches\<close> by the order that was
  in force when the request was started, which it keeps when the order has been changed
  since. The result holds the same matches as the pool, and matches with equal
  \<open>match_score\<close> stay in the order in which they arrived. No \<open>experience_score\<close> and no
  identifier takes part in the comparison.
\<close>

theorem ranking_by_match_score_stable:
  "pending (step (StartFetch j) s) = pending s @ [Fetching j (sortOrder s)] \<and>
   (i < length (pending s) \<and> pending s ! i = Fetching j captured \<longrightarrow>
      shown_matches (step (FetchDone i (Data d)) s)
        = shown_matches (fetchMatches j captured (Data d) s) \<and>
      sortOrder (step (FetchDone i (Data d)) s) = sortOrder s) \<and>
   mset (shown_matches (fetchMatches j captured (Data d) s)) = mset d \<and>
   sorted_wrt (in_order captured) (shown_matches (fetchMatches j captured (Data d) s)) \<and>
   filter (\<lambda>m. match_score m = k) (shown_matches (fetchMatches j captured (Data d) s))
     = filter (\<lambda>m. match_score m = k) d \<and>
   mset (shown_matches (handleSortChange order s)) = mset (shown_matches s) \<and>
   sorted_wrt (in_order order) (shown_matches (handleSortChange order s)) \<and>
   filter (\<lambda>m. match_score m = k) (shown_matches (handleSortChange order s))
     = filter (\<lambda>m. match_score m = k) (shown_matches s)"
  using shown_fetchDone [of i s j captured d]
  by (simp add: startFetch_def shown_fetchMatches shown_handleSortChange mset_array_sort
      in_order_array_sort array_sort_stable)

text \<open>
  A request started under \<open>'desc'\<close>, a change to \<open>'asc'\<close> while it is in flight, then the
  response: the list is shown downwards, ties in their order of arrival, while the
  sort order of the page is \<open>'asc'\<close>.
\<close>

theorem ranking_by_match_score_stable_witness:
  "pending (run [StartFetch ''j1'', SortChange Asc]) ! 0 = Fetching ''j1'' Desc \<and>
   map student_id (shown_matches (run [StartFetch ''j1'', SortChange Asc,
      FetchDone 0 (Data [a_match ''s5'' 50, a_match ''s7'' 70, a_match ''s6'' 70, a_match ''s8'' 60])]))
     = [''s7'', ''s6'', ''s8'', ''s5''] \<and>
   sortOrder (run [StartFetch ''j1'', SortChange Asc,
      FetchDone 0 (Data [a_match ''s5'' 50, a_match ''s7'' 70, a_match ''s6'' 70, a_match ''s8'' 60])])
     = Asc"
proof -
  let ?s = "run [StartFetch ''j1'', SortChange Asc]"
  let ?d = "[a_match ''s5'' 50, a_match ''s7'' 70, a_match ''s6'' 70, a_match ''s8'' 60]"
  have p: "pending ?s = [Fetching ''j1'' Desc]"
    by (simp add: run_def startFetch_def handleSortChange_def alloc_def initial_state_def)
  have o: "sortOrder ?s = Asc"
    by (simp add: run_def sortOrder_handleSortChange)
  have r: "run [StartFetch ''j1'', SortChange Asc, FetchDone 0 (Data ?d)]
           = step (FetchDone 0 (Data ?d)) ?s"
    by (simp add: run_def)
  have a: "array_sort (compare_matches Desc) ?d
           = [a_match ''s7'' 70, a_match ''s6'' 70, a_match ''s8'' 60, a_match ''s5'' 50]"
    by (simp add: array_sort_def compare_matches_def a_match_def)
  from ranking_by_match_score_stable
    [where i = 0 and s = ?s and j = "''j1''" and captured = Desc and d = ?d] p o
  have "shown_matches (step (FetchDone 0 (Data ?d)) ?s) = array_sort (compare_matches Desc) ?d
        \<and> sortOrder (step (FetchDone 0 (Data ?d)) ?s) = Asc"
    by (simp add: shown_fetchMatches)
  with p r a show ?thesis
    by (simp add: a_match_def)
qed

text \<open>
  Two matches with the same score come out in the order in which they came in, whichever
  it is: the order among ties follows no key of the matches.
\<close>

theorem ranking_tie_break_counterexample:
  "map student_id (shown_matches (fetchMatches ''j1'' Desc
      (Data [a_match ''s2'' 50, a_match ''s1'' 50]) initial_state)) = [''s2'', ''s1''] \<and>
   map student_id (shown_matches (fetchMatches ''j1'' Desc
      (Data [a_match ''s1'' 50, a_match ''s2'' 50]) initial_state)) = [''s1'', ''s2'']"
  by (simp add: shown_fetchMatches array_sort_def compare_matches_def a_match_def)

section \<open>Selecting the top N\<close>

text \<open>Every reachable state refers to an allocated array.\<close>

lemma fetchMatches_allocated:
  "matches s < next_ref s \<Longrightarrow> matches (fetchMatches j captured r s) < next_ref (fetchMatches j captured r s)"
  by (cases r) (simp_all add: fetchMatches_def alloc_def)

lemma handleDelete_allocated:
  "matches s < next_ref s \<Longrightarrow> matches (handleDelete j captured ok s) < next_ref (handleDelete j captured ok s)"
  by (simp add: handleDelete_def alloc_def)

lemma step_allocated: "matches s < next_ref s \<Longrightarrow> matches (step e s) < next_ref (step e s)"
proof (cases e)
  case (FetchDone i r)
  then show "matches s < next_ref s \<Longrightarrow> ?thesis"
    by (cases "pending s ! i") (simp_all add: fetchDone_def fetchMatches_allocated leave_def)
next
  case (DeleteDone i ok)
  then show "matches s < next_ref s \<Longrightarrow> ?thesis"
    by (cases "pending s ! i") (simp_all add: deleteDone_def handleDelete_allocated leave_def)
qed (simp_all add: startFetch_def startDelete_def handleSortChange_def handleTopNChange_def
       downloadCSV_def render_rows_def alloc_def)

lemma fold_step_allocated:
  "matches s < next_ref s \<Longrightarrow> matches (fold step evs s) < next_ref (fold step evs s)"
  by (induction evs arbitrary: s) (simp_all add: step_allocated)

lemma run_allocated: "matches (run evs) < next_ref (run evs)"
  unfolding run_def by (rule fold_step_allocated) (simp add: initial_state_def)

text \<open>
  C6. For every list of matches and every \<open>N\<close>, the rows shown in the table and the rows
  exported to the CSV are the first \<open>slice_end\<close> elements of the list, held in a new
  array; \<open>matches\<close> still refers to the same array, and that array and every other
  allocated array hold what they held before, in the same order.
\<close>

theorem top_n_selection_keeps_matches:
  "matches s < next_ref s \<Longrightarrow>
   fst (render_rows s) = take (slice_end (length (shown_matches s)) (topN s)) (shown_matches s) \<and>
   fst (downloadCSV s)
     = map csv_row (take (slice_end (length (shown_matches s)) (topN s)) (shown_matches s)) \<and>
   matches (snd (render_rows s)) = matches s \<and>
   matches (snd (downloadCSV s)) = matches s \<and>
   shown_matches (snd (render_rows s)) = shown_matches s \<and>
   shown_matches (snd (downloadCSV s)) = shown_matches s \<and>
   (\<forall>r < next_ref s. heap (snd (render_rows s)) r = heap s r
                      \<and> heap (snd (downloadCSV s)) r = heap s r)"
  by (simp add: render_rows_def downloadCSV_def alloc_def shown_matches_def slice0_def)

theorem top_n_selection_keeps_matches_witness:
  "matches (run [StartFetch ''j1'',
                 FetchDone 0 (Data [a_match ''s3'' 40, a_match ''s2'' 70, a_match ''s1'' 90]),
                 TopNChange (Fin 2)])
     < next_ref (run [StartFetch ''j1'',
                 FetchDone 0 (Data [a_match ''s3'' 40, a_match ''s2'' 70, a_match ''s1'' 90]),
                 TopNChange (Fin 2)]) \<and>
   fst (render_rows
      (run [StartFetch ''j1'',
            FetchDone 0 (Data [a_match ''s3'' 40, a_match ''s2'' 70, a_match ''s1'' 90]),
            TopNChange (Fin 2)])) = [a_match ''s1'' 90, a_match ''s2'' 70] \<and>
   shown_matches (snd (downloadCSV
      (run [StartFetch ''j1'',
            FetchDone 0 (Data [a_match ''s3'' 40, a_match ''s2'' 70, a_match ''s1'' 90]),
            TopNChange (Fin 2)])))
     = [a_match ''s1'' 90, a_match ''s2'' 70, a_match ''s3'' 40]"
proof -
  let ?evs = "[StartFetch ''j1'',
               FetchDone 0 (Data [a_match ''s3'' 40, a_match ''s2'' 70, a_match ''s1'' 90]),
               TopNChange (Fin 2)]"
  have alloc: "matches (run ?evs) < next_ref (run ?evs)"
    by (rule run_allocated)
  have shown: "shown_matches (run ?evs) = [a_match ''s1'' 90, a_match ''s2'' 70, a_match ''s3'' 40]"
    by (simp add: run_def startFetch_def fetchDone_def leave_def fetchMatches_def
        handleTopNChange_def alloc_def shown_matches_def
        array_sort_def compare_matches_def a_match_def initial_state_def)
  have top: "topN (run ?evs) = Fin 2"
    by (simp add: run_def startFetch_def fetchDone_def leave_def fetchMatches_def
        handleTopNChange_def alloc_def initial_state_def)
  have cut: "slice_end (Suc (Suc (Suc 0))) (Fin 2) = 2"
    by (simp add: slice_end_def to_integer_def)
  show ?thesis
    using top_n_selection_keeps_matches [OF alloc] alloc
    by (simp add: shown top cut)
qed

section \<open>Parsing the analysis into sections\<close>









lemma map_of_rev_distinct: "distinct (map fst xs) \<Longrightarrow> map_of (rev xs) = map_of xs"
  by (rule map_of_inject_set[THEN iffD2]) (auto simp: rev_map[symmetric])




section \<open>The scores of the matching engine\<close>

lemma dot_Cons: "dot (x # a) (y # b) = x * y + dot a b"
  by (simp add: dot_def)

lemma dot_Nil: "dot [] b = 0" "dot a [] = 0"
  by (simp_all add: dot_def)

lemma dot_self_nonneg: "0 \<le> dot a a"
  by (induction a) (simp_all add: dot_Nil dot_Cons)

lemma two_products:
  fixes x y d A B :: real
  assumes "d\<^sup>2 \<le> A * B" "0 \<le> A" "0 \<le> B"
  shows "(x * y + d)\<^sup>2 \<le> (x * x + A) * (y * y + B)"
proof -
  have sq: "(2 * x * y * d)\<^sup>2 \<le> (x * x * B + y * y * A)\<^sup>2"
  proof -
    have "(2 * x * y * d)\<^sup>2 = 4 * (x * x) * (y * y) * d\<^sup>2"
      by (simp add: power2_eq_square)
    also have "\<dots> \<le> 4 * (x * x) * (y * y) * (A * B)"
      using assms(1) by (intro mult_left_mono) (simp_all add: zero_le_mult_iff)
    also have "\<dots> \<le> 4 * (x * x) * (y * y) * (A * B) + (x * x * B - y * y * A)\<^sup>2"
      by simp
    also have "\<dots> = (x * x * B + y * y * A)\<^sup>2"
      by (simp add: power2_eq_square algebra_simps)
    finally show ?thesis .
  qed
  have nn: "0 \<le> x * x * B + y * y * A"
    using assms(2,3) by (simp add: zero_le_mult_iff)
  have "2 * x * y * d \<le> x * x * B + y * y * A"
    using sq nn by (rule power2_le_imp_le)
  moreover have "(x * y + d)\<^sup>2 = x * x * (y * y) + 2 * x * y * d + d\<^sup>2"
    by (simp add: power2_eq_square algebra_simps)
  moreover have "(x * x + A) * (y * y + B) = x * x * (y * y) + (x * x * B + y * y * A) + A * B"
    by (simp add: algebra_simps)
  ultimately show ?thesis using assms(1) by linarith
qed

lemma cauchy_schwarz: "(dot a b)\<^sup>2 \<le> dot a a * dot b b"
proof (induction a arbitrary: b)
  case Nil
  then show ?case by (simp add: dot_Nil)
next
  case (Cons x a)
  show ?case
  proof (cases b)
    case Nil
    then show ?thesis by (simp add: dot_Nil)
  next
    case (Cons y b')
    from Cons.IH [of b'] dot_self_nonneg [of a] dot_self_nonneg [of b']
    show ?thesis unfolding Cons dot_Cons by (rule two_products)
  qed
qed

lemma abs_dot_le: "\<bar>dot a b\<bar> \<le> norm2 a * norm2 b"
proof -
  have "\<bar>dot a b\<bar> = sqrt ((dot a b)\<^sup>2)" by simp
  also have "\<dots> \<le> sqrt (dot a a * dot b b)"
    using cauchy_schwarz by (rule real_sqrt_le_mono)
  also have "\<dots> = norm2 a * norm2 b"
    by (simp add: norm2_def real_sqrt_mult)
  finally show ?thesis .
qed

lemma norm2_nonneg: "0 \<le> norm2 a"
  by (simp add: norm2_def dot_self_nonneg)

lemma cosine_bounds:
  assumes "norm2 a \<noteq> 0" "norm2 b \<noteq> 0"
  shows "- 1 \<le> cosine a b \<and> cosine a b \<le> 1"
proof -
  from assms norm2_nonneg [of a] norm2_nonneg [of b] have pos: "0 < norm2 a * norm2 b"
    by (simp add: zero_less_mult_iff less_le)
  have "\<bar>cosine a b\<bar> = \<bar>dot a b\<bar> / \<bar>norm2 a * norm2 b\<bar>"
    unfolding cosine_def by (rule abs_divide)
  also have "\<dots> = \<bar>dot a b\<bar> / (norm2 a * norm2 b)"
    using pos by (simp only: abs_of_pos)
  also have "\<dots> \<le> 1"
    using abs_dot_le [of a b] pos by (simp add: divide_le_eq)
  finally show ?thesis by (simp add: abs_le_iff)
qed

lemma dot_nonneg:
  "list_all (\<lambda>x. 0 \<le> x) a \<Longrightarrow> list_all (\<lambda>x. 0 \<le> x) b \<Longrightarrow> 0 \<le> dot a b"
proof (induction a arbitrary: b)
  case Nil
  then show ?case by (simp add: dot_Nil)
next
  case (Cons x a)
  then show ?case by (cases b) (simp_all add: dot_Nil dot_Cons)
qed

lemma similarity_bounds: "0 \<le> similarity_score a b \<and> similarity_score a b \<le> 100"
proof (cases "norm2 a = 0 \<or> norm2 b = 0")
  case True
  then show ?thesis by (simp add: similarity_score_def)
next
  case False
  then have c: "- 1 \<le> cosine a b" "cosine a b \<le> 1"
    using cosine_bounds [of a b] by simp_all
  show ?thesis
  proof (cases "list_all (\<lambda>x. 0 \<le> x) a \<and> list_all (\<lambda>x. 0 \<le> x) b")
    case True
    then have "0 \<le> dot a b" by (simp add: dot_nonneg)
    then have "0 \<le> cosine a b"
      using norm2_nonneg [of a] norm2_nonneg [of b] by (simp add: cosine_def)
    with c False True show ?thesis by (simp add: similarity_score_def)
  next
    case nn: False
    with c False show ?thesis by (auto simp: similarity_score_def)
  qed
qed

lemma keyword_formula_bounds: "0 \<le> keyword_formula canon rs js \<and> keyword_formula canon rs js \<le> 100"
proof -
  let ?n = "card (canon ` set rs \<inter> canon ` set js)"
  let ?m = "card (canon ` set js)"
  have "?n \<le> ?m" by (rule card_mono) simp_all
  then have "real ?n \<le> real (max 1 ?m)" by simp
  moreover have "0 < real (max 1 ?m)" by simp
  ultimately have "real ?n / real (max 1 ?m) \<le> 1"
    by (simp only: divide_le_eq_1_pos)
  then have le: "100 * (real ?n / real (max 1 ?m)) \<le> 100" by linarith
  have "0 \<le> real ?n / real (max 1 ?m)"
    by (rule divide_nonneg_nonneg) simp_all
  then have ge: "0 \<le> 100 * (real ?n / real (max 1 ?m))" by linarith
  have eq: "keyword_formula canon rs js = 100 * (real ?n / real (max 1 ?m))"
    unfolding keyword_formula_def by (simp only: times_divide_eq_right)
  from le ge show ?thesis unfolding eq by (rule_tac conjI)
qed

lemma keyword_bounds: "0 \<le> keyword_score canon rs js \<and> keyword_score canon rs js \<le> 100"
  using keyword_formula_bounds [of canon rs js] by (simp add: keyword_score_def)

lemma experience_bounds: "0 \<le> experience_score c r j \<and> experience_score c r j \<le> 100"
  by (simp add: experience_score_def clip_def)

lemma weighted_bounds:
  fixes a b c s k e :: real
  assumes "0 \<le> a" "0 \<le> b" "0 \<le> c" "a + b + c = 1"
    and "0 \<le> s" "s \<le> 100" "0 \<le> k" "k \<le> 100" "0 \<le> e" "e \<le> 100"
  shows "0 \<le> a * s + b * k + c * e \<and> a * s + b * k + c * e \<le> 100"
proof -
  have "a * s \<le> a * 100" "b * k \<le> b * 100" "c * e \<le> c * 100"
    using assms by (simp_all add: mult_left_mono)
  moreover have "a * 100 + b * 100 + c * 100 = (a + b + c) * 100"
    by (simp only: distrib_right)
  moreover note assms(4)
  moreover have "0 \<le> a * s" "0 \<le> b * k" "0 \<le> c * e"
    using assms by simp_all
  ultimately show ?thesis by simp
qed

lemma score_match_bounds:
  assumes "valid_config c" "score_match c r j = Inr m"
  shows "0 \<le> mr_match_score m \<and> mr_match_score m \<le> 100
       \<and> 0 \<le> mr_similarity_score m \<and> mr_similarity_score m \<le> 100
       \<and> 0 \<le> mr_keyword_score m \<and> mr_keyword_score m \<le> 100
       \<and> 0 \<le> mr_experience_score m \<and> mr_experience_score m \<le> 100"
proof -
  let ?s = "similarity_score (features r) (posting_features j)"
  let ?k = "keyword_score (taxonomy c) (skills r) (required_skills j)"
  let ?e = "experience_score c r j"
  from assms(2) have m: "mr_similarity_score m = ?s" "mr_keyword_score m = ?k"
    "mr_experience_score m = ?e"
    "mr_match_score m = w_similarity c * ?s + w_keyword c * ?k + w_experience c * ?e"
    by (auto simp: score_match_def Let_def split: if_splits)
  from assms(1) have w: "0 \<le> w_similarity c" "0 \<le> w_keyword c" "0 \<le> w_experience c"
    "w_similarity c + w_keyword c + w_experience c = 1"
    by (simp_all add: valid_config_def)
  note s = similarity_bounds [of "features r" "posting_features j"]
  note k = keyword_bounds [of "taxonomy c" "skills r" "required_skills j"]
  note e = experience_bounds [of c r j]
  from weighted_bounds [OF w, of ?s ?k ?e] s k e m show ?thesis by simp
qed

lemma score_match_returns:
  "length (features r) = length (posting_features j) \<Longrightarrow> \<exists>m. score_match c r j = Inr m"
  by (simp add: score_match_def Let_def)

text \<open>
  C3 (as the section reads). With a non-empty set of job requirements the keyword score
  is the formula, 100 times the number of canonical skills the resume shares with the
  job over the number of the job's canonical skills; with an empty set it is exactly
  100, where the formula would give 0. For the skills Python and SQL against python,
  sql and spark under a taxonomy that ignores case it is 100 * 2 / 3. It always lies in
  [0, 100].
\<close>

theorem keyword_score_policy:
  "(js \<noteq> [] \<longrightarrow>
      keyword_score canon rs js = keyword_formula canon rs js \<and>
      keyword_score canon rs js
        = 100 * real (card (canon ` set rs \<inter> canon ` set js)) / real (card (canon ` set js))) \<and>
   keyword_score canon rs [] = 100 \<and>
   keyword_score fold_case [''Python'', ''SQL''] [''python'', ''sql'', ''spark''] = 100 * 2 / 3 \<and>
   0 \<le> keyword_score canon rs js \<and> keyword_score canon rs js \<le> 100"
proof -
  have "js \<noteq> [] \<longrightarrow> max 1 (card (canon ` set js)) = card (canon ` set js)"
  proof
    assume "js \<noteq> []"
    then have "canon ` set js \<noteq> {}" by simp
    then have "0 < card (canon ` set js)" by (simp add: card_gt_0_iff)
    then show "max 1 (card (canon ` set js)) = card (canon ` set js)" by simp
  qed
  then have "js \<noteq> [] \<longrightarrow>
      keyword_score canon rs js = keyword_formula canon rs js \<and>
      keyword_score canon rs js
        = 100 * real (card (canon ` set rs \<inter> canon ` set js)) / real (card (canon ` set js))"
    by (simp add: keyword_score_def keyword_formula_def)
  moreover have "keyword_score canon rs [] = 100"
    by (simp add: keyword_score_def)
  moreover have "keyword_score fold_case [''Python'', ''SQL''] [''python'', ''sql'', ''spark'']
      = 100 * 2 / 3"
    by (simp add: keyword_score_def keyword_formula_def fold_case_def to_lower_def char_of_def
        bit_Suc_0_iff)
  ultimately show ?thesis
    using keyword_bounds [of canon rs js] by blast
qed

theorem keyword_score_policy_witness:
  "[''python'', ''java''] \<noteq> [] \<and>
   keyword_score fold_case [''Python''] [''python'', ''java''] = 50 \<and>
   keyword_formula fold_case [''Python''] [''python'', ''java''] = 50"
proof -
  have "real (card (fold_case ` set [''Python''] \<inter> fold_case ` set [''python'', ''java''])) = 1"
    by (simp add: fold_case_def to_lower_def char_of_def bit_Suc_0_iff)
  moreover have "real (card (fold_case ` set [''python'', ''java''])) = 2"
    by (simp add: fold_case_def to_lower_def char_of_def bit_Suc_0_iff)
  ultimately show ?thesis
    using keyword_score_policy [of "[''python'', ''java'']" fold_case "[''Python'']"]
    by simp
qed

text \<open>
  With no job requirement the formula as written gives 0 and the stated policy 100:
  the formula does not hold for every pair of skill sets.
\<close>

theorem keyword_formula_empty_counterexample:
  "keyword_formula fold_case [''python''] [] = 0 \<and>
   keyword_score fold_case [''python''] [] = 100"
  by (simp add: keyword_score_def keyword_formula_def)

text \<open>
  C4. Under a valid configuration, \<open>score_match\<close> returns a result for every resume and
  job whose vectors share a term space, and in every result it returns the aggregate
  and the three sub-scores lie in [0, 100].
\<close>

theorem score_match_in_range:
  "valid_config c \<longrightarrow>
     (length (features r) = length (posting_features j) \<longrightarrow> (\<exists>m. score_match c r j = Inr m)) \<and>
     (\<forall>m. score_match c r j = Inr m \<longrightarrow>
        0 \<le> mr_match_score m \<and> mr_match_score m \<le> 100
        \<and> 0 \<le> mr_similarity_score m \<and> mr_similarity_score m \<le> 100
        \<and> 0 \<le> mr_keyword_score m \<and> mr_keyword_score m \<le> 100
        \<and> 0 \<le> mr_experience_score m \<and> mr_experience_score m \<le> 100)"
  using score_match_bounds [of c r j] score_match_returns [of r j c]
  by blast

theorem score_match_in_range_witness:
  "valid_config a_config \<and>
   score_match a_config a_resume a_job
     = Inr \<lparr> mr_student_id = ''s1'', mr_job_id = ''j1'', mr_match_score = 1051 / 15,
             mr_similarity_score = 96, mr_keyword_score = 200 / 3, mr_experience_score = 25 \<rparr> \<and>
   (0::real) \<le> 1051 / 15 \<and> (1051::real) / 15 \<le> 100"
proof -
  have v: "valid_config a_config"
    by (simp add: valid_config_def a_config_def)
  have m: "score_match a_config a_resume a_job
     = Inr \<lparr> mr_student_id = ''s1'', mr_job_id = ''j1'', mr_match_score = 1051 / 15,
             mr_similarity_score = 96, mr_keyword_score = 200 / 3, mr_experience_score = 25 \<rparr>"
    by (simp add: score_match_def a_config_def a_resume_def a_job_def Let_def
        similarity_score_def norm2_def dot_def cosine_def keyword_score_def keyword_formula_def
        fold_case_def to_lower_def char_of_def bit_Suc_0_iff experience_score_def
        entry_weight_def duration_years_def years_since_end_def clip_def)
  from score_match_in_range [of a_config a_resume a_job] v m
  have "0 \<le> mr_match_score \<lparr> mr_student_id = ''s1'', mr_job_id = ''j1'', mr_match_score = 1051 / 15,
             mr_similarity_score = 96, mr_keyword_score = 200 / 3, mr_experience_score = 25 \<rparr>
      \<and> mr_match_score \<lparr> mr_student_id = ''s1'', mr_job_id = ''j1'', mr_match_score = 1051 / 15,
             mr_similarity_score = 96, mr_keyword_score = 200 / 3, mr_experience_score = 25 \<rparr> \<le> 100"
    by blast
  with v m show ?thesis by simp
qed

text \<open>
  C7. The normalizer fails with \<open>ExtractionEmpty\<close> on every text that is empty or
  shorter than the minimum length, and scoring from that text then returns the same
  failure and no score; on every other text the normalizer returns a text.
\<close>

theorem normalizer_extraction_empty:
  "(raw = [] \<or> length raw < min_text_length c \<longrightarrow>
      text_normalizer (min_text_length c) raw = Inl ExtractionEmpty \<and>
      score_text c extract raw j = Inl ExtractionEmpty) \<and>
   (raw \<noteq> [] \<and> min_text_length c \<le> length raw \<longrightarrow>
      (\<exists>t. text_normalizer (min_text_length c) raw = Inr t))"
  by (simp add: text_normalizer_def score_text_def)

theorem normalizer_extraction_empty_witness:
  "length ''short text'' < min_text_length a_config \<and>
   text_normalizer (min_text_length a_config) ''short text'' = Inl ExtractionEmpty \<and>
   score_text a_config (\<lambda>t. a_resume) ''short text'' a_job = Inl ExtractionEmpty \<and>
   text_normalizer (min_text_length a_config) [] = Inl ExtractionEmpty"
proof -
  have short: "length ''short text'' < min_text_length a_config"
    by (simp add: a_config_def)
  from normalizer_extraction_empty [of "''short text''" a_config "\<lambda>t. a_resume" a_job]
    normalizer_extraction_empty [of "[]" a_config "\<lambda>t. a_resume" a_job] short
  show ?thesis by simp
qed

section \<open>Registration\<close>

lemma register_missing_field:
  "falsy (name r) \<or> falsy (email_field r) \<or> falsy (password r) \<or> falsy (college r)
     \<or> falsy (year_field r) \<or> falsy (department_field r) \<Longrightarrow>
   registerIndividual w db r = (\<lparr> status = 400, message = ''All fields are required'' \<rparr>, db)"
  by (simp add: registerIndividual_def)

lemma register_rejects:
  "\<not> findOne_throws w \<Longrightarrow> \<not> findById_throws w \<Longrightarrow> \<not> checks_pass db r \<Longrightarrow>
   status (fst (registerIndividual w db r)) = 400 \<and> snd (registerIndividual w db r) = db"
  by (auto simp: registerIndividual_def checks_pass_def split: option.splits)

lemma register_creates:
  "snd (registerIndividual w db r) \<noteq> db \<Longrightarrow>
   checks_pass db r \<and> status (fst (registerIndividual w db r)) = 201"
  by (auto simp: registerIndividual_def checks_pass_def split: option.splits if_splits outcome.splits)

lemma register_status_400:
  "status (fst (registerIndividual w db r)) = 400 \<Longrightarrow>
   \<not> checks_pass db r \<and> snd (registerIndividual w db r) = db"
  by (auto simp: registerIndividual_def checks_pass_def split: option.splits if_splits outcome.splits)

lemma route_creates:
  "snd (register_route v w db r) \<noteq> db \<Longrightarrow> checks_pass db r"
  by (auto simp: register_route_def split: option.splits dest: register_creates)

lemma route_refuses:
  "upload_single (req_file r) = Some e \<Longrightarrow> register_route v w db r = (PassedError e, db)"
  by (simp add: register_route_def)

lemma route_refuses_iff:
  "(upload_single (req_file r) \<noteq> None)
     = (\<exists>f. req_file r = Some f \<and> (mimetype f \<noteq> ''application/pdf'' \<or> max_file_size < file_size f))"
  by (cases "req_file r") (simp_all add: upload_single_def)

lemma register_lookup_throws:
  "\<not> (falsy (name r) \<or> falsy (email_field r) \<or> falsy (password r) \<or> falsy (college r)
       \<or> falsy (year_field r) \<or> falsy (department_field r)) \<Longrightarrow>
   findOne_throws w \<or> (findOne db (the (email_field r)) = None \<and> findById_throws w) \<Longrightarrow>
   status (fst (registerIndividual w db r)) = 500 \<and> snd (registerIndividual w db r) = db"
  by (auto simp: registerIndividual_def)

text \<open>
  C9 (as the code has it). The controller answers 400 at once when a required field is
  missing. When its two lookups return and any check fails (a missing field, a taken
  email, an unknown college, no file, an empty buffer, a type other than PDF, a size
  over 5 * 1024 * 1024 bytes) it answers 400; when a lookup throws once the fields are
  there, it answers 500. At the route, a file that is not a PDF or is over 5 MB never
  reaches the controller: the upload middleware passes an error on, and the route
  itself answers nothing. In each of these cases the collection of users is unchanged;
  a user is added only when every check passes, and the answer is then 201.
\<close>

theorem registration_checks_before_create:
  "(falsy (name r) \<or> falsy (email_field r) \<or> falsy (password r) \<or> falsy (college r)
      \<or> falsy (year_field r) \<or> falsy (department_field r) \<longrightarrow>
      status (fst (registerIndividual w db r)) = 400 \<and> snd (registerIndividual w db r) = db) \<and>
   (\<not> findOne_throws w \<and> \<not> findById_throws w \<and> \<not> checks_pass db r \<longrightarrow>
      status (fst (registerIndividual w db r)) = 400 \<and> snd (registerIndividual w db r) = db) \<and>
   (\<not> (falsy (name r) \<or> falsy (email_field r) \<or> falsy (password r) \<or> falsy (college r)
        \<or> falsy (year_field r) \<or> falsy (department_field r)) \<and>
    (findOne_throws w \<or> (findOne db (the (email_field r)) = None \<and> findById_throws w)) \<longrightarrow>
      status (fst (registerIndividual w db r)) = 500 \<and> snd (registerIndividual w db r) = db) \<and>
   (status (fst (registerIndividual w db r)) = 400 \<longrightarrow>
      \<not> checks_pass db r \<and> snd (registerIndividual w db r) = db) \<and>
   (snd (registerIndividual w db r) \<noteq> db \<longrightarrow>
      checks_pass db r \<and> status (fst (registerIndividual w db r)) = 201) \<and>
   ((\<exists>f. req_file r = Some f \<and> (mimetype f \<noteq> ''application/pdf'' \<or> max_file_size < file_size f))
      \<longrightarrow> (\<exists>e. register_route v w db r = (PassedError e, db))) \<and>
   (snd (register_route v w db r) \<noteq> db \<longrightarrow> checks_pass db r)"
proof (intro conjI impI)
  assume "falsy (name r) \<or> falsy (email_field r) \<or> falsy (password r) \<or> falsy (college r)
      \<or> falsy (year_field r) \<or> falsy (department_field r)"
  then have "registerIndividual w db r = (\<lparr> status = 400, message = ''All fields are required'' \<rparr>, db)"
    by (rule register_missing_field)
  then show "status (fst (registerIndividual w db r)) = 400"
    and "snd (registerIndividual w db r) = db"
    by simp_all
next
  assume "\<not> findOne_throws w \<and> \<not> findById_throws w \<and> \<not> checks_pass db r"
  then have "status (fst (registerIndividual w db r)) = 400 \<and> snd (registerIndividual w db r) = db"
    by (simp add: register_rejects)
  then show "status (fst (registerIndividual w db r)) = 400"
    and "snd (registerIndividual w db r) = db"
    by simp_all
next
  assume "\<not> (falsy (name r) \<or> falsy (email_field r) \<or> falsy (password r) \<or> falsy (college r)
        \<or> falsy (year_field r) \<or> falsy (department_field r)) \<and>
    (findOne_throws w \<or> (findOne db (the (email_field r)) = None \<and> findById_throws w))"
  then have "status (fst (registerIndividual w db r)) = 500 \<and> snd (registerIndividual w db r) = db"
    using register_lookup_throws [of r w db] by blast
  then show "status (fst (registerIndividual w db r)) = 500"
    and "snd (registerIndividual w db r) = db"
    by simp_all
next
  assume "status (fst (registerIndividual w db r)) = 400"
  then have "\<not> checks_pass db r \<and> snd (registerIndividual w db r) = db"
    by (rule register_status_400)
  then show "\<not> checks_pass db r" and "snd (registerIndividual w db r) = db"
    by simp_all
next
  assume "snd (registerIndividual w db r) \<noteq> db"
  then have "checks_pass db r \<and> status (fst (registerIndividual w db r)) = 201"
    by (rule register_creates)
  then show "checks_pass db r" and "status (fst (registerIndividual w db r)) = 201"
    by simp_all
next
  assume "\<exists>f. req_file r = Some f \<and> (mimetype f \<noteq> ''application/pdf'' \<or> max_file_size < file_size f)"
  then have "upload_single (req_file r) \<noteq> None"
    by (simp only: route_refuses_iff)
  then obtain e where "upload_single (req_file r) = Some e" by auto
  then have "register_route v w db r = (PassedError e, db)"
    by (rule route_refuses)
  then show "\<exists>e. register_route v w db r = (PassedError e, db)" ..
next
  assume "snd (register_route v w db r) \<noteq> db"
  then show "checks_pass db r"
    by (rule route_creates)
qed

theorem registration_checks_before_create_witness:
  "\<not> checks_pass a_database (a_register_request ''text/plain'') \<and>
   status (fst (registerIndividual fair a_database (a_register_request ''text/plain''))) = 400 \<and>
   snd (registerIndividual fair a_database (a_register_request ''text/plain'')) = a_database \<and>
   snd (registerIndividual fair a_database (a_register_request ''application/pdf'')) \<noteq> a_database \<and>
   checks_pass a_database (a_register_request ''application/pdf'') \<and>
   status (fst (registerIndividual fair a_database (a_register_request ''application/pdf''))) = 201"
proof -
  have bad: "\<not> checks_pass a_database (a_register_request ''text/plain'')"
    by (simp add: checks_pass_def a_register_request_def)
  have calm: "\<not> findOne_throws fair \<and> \<not> findById_throws fair"
    by (simp add: fair_def)
  have added: "snd (registerIndividual fair a_database (a_register_request ''application/pdf''))
                 \<noteq> a_database"
    by (simp add: registerIndividual_def a_register_request_def fair_def a_database_def
        a_user_def falsy_def findOne_def findById_def max_file_size_def)
  note bad_case = registration_checks_before_create
    [where r = "a_register_request ''text/plain''" and w = fair and db = a_database]
  note good_case = registration_checks_before_create
    [where r = "a_register_request ''application/pdf''" and w = fair and db = a_database]
  from bad_case bad calm
  have "status (fst (registerIndividual fair a_database (a_register_request ''text/plain''))) = 400
        \<and> snd (registerIndividual fair a_database (a_register_request ''text/plain'')) = a_database"
    by simp
  moreover from good_case added
  have "checks_pass a_database (a_register_request ''application/pdf'')
        \<and> status (fst (registerIndividual fair a_database (a_register_request ''application/pdf''))) = 201"
    by simp
  ultimately show ?thesis using bad added by simp
qed

text \<open>
  A text file sent to the route: the upload middleware passes the error on, and no
  answer with status 400 is given. A request whose college lookup throws, as for an
  identifier the database cannot read as one: the check fails and the answer is 500.
\<close>

theorem registration_route_counterexample:
  "register_route (\<lambda>r. None) fair a_database (a_register_request ''text/plain'')
     = (PassedError ''Only PDF files are allowed'', a_database) \<and>
   \<not> checks_pass a_database ((a_register_request ''application/pdf'')\<lparr> college := Some ''c-9'' \<rparr>) \<and>
   status (fst (registerIndividual (fair\<lparr> findById_throws := True \<rparr>) a_database
      ((a_register_request ''application/pdf'')\<lparr> college := Some ''c-9'' \<rparr>))) = 500"
  by (simp add: register_route_def upload_single_def registerIndividual_def checks_pass_def
      a_register_request_def fair_def a_database_def a_user_def falsy_def findOne_def
      findById_def)

section \<open>The scores of an uploaded analysis report\<close>

lemma report_status_scores:
  "report_status (fst (uploadAnalysisReport w db
      (r\<lparr> analysisResumeScore_field := x, analysisAtsScore_field := y \<rparr>)))
     = report_status (fst (uploadAnalysisReport w db r))"
  by (cases "find (\<lambda>u. ind_id u = params_id r) (individuals db)";
      cases "report_upload_result w"; cases "report_file r")
     (simp_all add: uploadAnalysisReport_def failure_def)

lemma report_returned_scores:
  "report_status (fst (uploadAnalysisReport w db r)) = 200 \<Longrightarrow>
   returned_resume_score (fst (uploadAnalysisReport w db r))
     = Some (to_json (or_zero (parseInt10 (analysisResumeScore_field r)))) \<and>
   returned_ats_score (fst (uploadAnalysisReport w db r))
     = Some (to_json (or_zero (parseInt10 (analysisAtsScore_field r))))"
  by (cases "find (\<lambda>u. ind_id u = params_id r) (individuals db)";
      cases "report_upload_result w"; cases "report_file r")
     (simp_all add: uploadAnalysisReport_def failure_def update_user_def split: if_split_asm)

lemma report_stored_scores:
  "report_status (fst (uploadAnalysisReport w db r)) = 200 \<Longrightarrow>
   u \<in> set (individuals (snd (uploadAnalysisReport w db r))) \<Longrightarrow> ind_id u = params_id r \<Longrightarrow>
   analysisResumeScore u = or_zero (parseInt10 (analysisResumeScore_field r)) \<and>
   analysisAtsScore u = or_zero (parseInt10 (analysisAtsScore_field r))"
  by (cases "find (\<lambda>u. ind_id u = params_id r) (individuals db)";
      cases "report_upload_result w"; cases "report_file r")
     (auto simp: uploadAnalysisReport_def failure_def update_user_def split: if_split_asm)

lemma or_zero_zero: "(or_zero n = Fin 0) = (n = NaN \<or> n = Fin 0)"
  by (cases n) (simp_all add: or_zero_def)

lemma or_zero_number: "or_zero n \<noteq> NaN"
  by (cases n) (simp_all add: or_zero_def)

lemma excess_bits_small: "n < 2 ^ 53 \<Longrightarrow> excess_bits n = 0"
  by (subst excess_bits.simps) simp

lemma round_small: "n < 2 ^ 53 \<Longrightarrow> round_to_double n = Some n"
proof -
  assume a: "n < 2 ^ 53"
  have "(2::nat) ^ 53 \<le> 2 ^ 1024" by (rule power_increasing) simp_all
  with a have "\<not> 2 ^ 1024 \<le> n" by linarith
  with a show ?thesis by (simp add: round_to_double_def excess_bits_small)
qed

lemma to_double_small:
  "n < 2 ^ 53 \<Longrightarrow> to_double neg n = Fin (if neg then - rat_of_nat n else rat_of_nat n)"
  by (simp add: to_double_def round_small)

lemma excess_bits_le: "0 < n \<Longrightarrow> 2 ^ excess_bits n \<le> n"
proof (induction n rule: excess_bits.induct)
  case (1 n)
  show ?case
  proof (cases "n < 2 ^ 53")
    case True
    with "1.prems" show ?thesis by (simp add: excess_bits_small)
  next
    case False
    then have half: "0 < n div 2" by simp
    from False have e: "excess_bits n = Suc (excess_bits (n div 2))"
      by (subst excess_bits.simps) simp
    from "1.IH" [OF False half] have "2 * 2 ^ excess_bits (n div 2) \<le> 2 * (n div 2)"
      by simp
    also have "\<dots> \<le> n" by simp
    finally show ?thesis by (simp add: e)
  qed
qed

lemma round_overflow:
  assumes big: "2 ^ k \<le> n" and up: "n div 2 ^ excess_bits n \<le> q'"
  shows "(2::nat) ^ k \<le> q' * 2 ^ excess_bits n"
proof (rule ccontr)
  let ?e = "excess_bits n"
  let ?q = "n div 2 ^ ?e"
  assume "\<not> 2 ^ k \<le> q' * 2 ^ ?e"
  then have small: "q' * 2 ^ ?e < 2 ^ k" by simp
  have "?q * 2 ^ ?e \<le> q' * 2 ^ ?e" using up by simp
  with small have qs: "?q * 2 ^ ?e < 2 ^ k" by linarith
  from big have pos: "0 < n" by (cases "n = 0") simp_all
  then have "2 ^ ?e \<le> n" by (rule excess_bits_le)
  then have q1: "1 \<le> ?q" by (simp add: Suc_le_eq div_greater_zero_iff)
  then have "(2::nat) ^ ?e \<le> ?q * 2 ^ ?e" by simp
  with qs have "(2::nat) ^ ?e < 2 ^ k" by linarith
  then have ek: "?e \<le> k" by simp
  then have split: "(2::nat) ^ k = 2 ^ (k - ?e) * 2 ^ ?e"
    by (simp add: power_add [symmetric])
  with qs have "?q < 2 ^ (k - ?e)" by simp
  then have "Suc ?q \<le> 2 ^ (k - ?e)" by simp
  then have "Suc ?q * 2 ^ ?e \<le> 2 ^ (k - ?e) * 2 ^ ?e"
    by (rule mult_le_mono1)
  with split have le: "Suc ?q * 2 ^ ?e \<le> 2 ^ k" by simp
  have "n = ?q * 2 ^ ?e + n mod 2 ^ ?e" by (rule div_mult_mod_eq [symmetric])
  moreover have "n mod 2 ^ ?e < 2 ^ ?e" by simp
  moreover have "Suc ?q * 2 ^ ?e = ?q * 2 ^ ?e + 2 ^ ?e" by simp
  ultimately have "n < Suc ?q * 2 ^ ?e" by linarith
  with le big show False by linarith
qed

lemma to_double_overflow:
  "2 ^ 1024 \<le> n \<Longrightarrow> to_double neg n = (if neg then NegInf else PosInf)"
proof -
  assume big: "2 ^ 1024 \<le> n"
  let ?e = "excess_bits n"
  let ?q = "n div 2 ^ ?e"
  let ?q' = "if 2 ^ ?e < 2 * (n mod 2 ^ ?e) \<or> (2 * (n mod 2 ^ ?e) = 2 ^ ?e \<and> odd ?q) then ?q + 1 else ?q"
  have "?q \<le> ?q'" by simp
  with big have "(2::nat) ^ 1024 \<le> ?q' * 2 ^ ?e" by (rule round_overflow)
  then have "round_to_double n = None"
    unfolding round_to_double_def Let_def by (rule if_P)
  then show ?thesis by (simp add: to_double_def)
qed

lemma digit_not_space: "is_digit c \<Longrightarrow> \<not> is_space c \<and> c \<noteq> CHR ''-'' \<and> c \<noteq> CHR ''+''"
  by (auto simp: is_digit_def is_space_def)

lemma parseInt10_digits:
  "ds \<noteq> [] \<Longrightarrow> list_all is_digit ds \<Longrightarrow> parseInt10 (Some ds) = to_double False (digits_value ds)"
proof -
  assume ne: "ds \<noteq> []" and all: "list_all is_digit ds"
  then obtain c cs where ds: "ds = c # cs" by (cases ds) auto
  with all have c: "is_digit c" by simp
  from all have tw: "takeWhile is_digit ds = ds"
    by (simp add: takeWhile_eq_all_conv list_all_iff)
  from c ds have dw: "dropWhile is_space ds = ds"
    using digit_not_space [of c] by simp
  from c ds have hd: "hd ds \<noteq> CHR ''-''" "hd ds \<noteq> CHR ''+''"
    using digit_not_space [of c] by simp_all
  show ?thesis
    using ne by (simp add: parseInt10_def dw hd tw)
qed

text \<open>
  C1 (as the code has it). \<open>uploadAnalysisReport\<close> stores, for each of the two scores,
  the Number that \<open>parseInt\<close> of the field gives, and 0 when that is \<open>NaN\<close> (the field
  is absent or does not start with a number) or zero; the answer returns the stored
  Number as JSON, and its status does not depend on the score fields. A stored or
  returned 0 therefore says that the field parsed to 0 or that it did not parse; the
  two are not told apart. The Number of a run of digits is their integer below 2^53
  and \<open>Infinity\<close>, returned as \<open>null\<close>, from 2^1024 on.
\<close>

theorem report_scores_default_to_zero:
  "(or_zero (parseInt10 x) = Fin 0 \<longleftrightarrow> parseInt10 x = NaN \<or> parseInt10 x = Fin 0) \<and>
   or_zero (parseInt10 x) \<noteq> NaN \<and>
   report_status (fst (uploadAnalysisReport w db
      (r\<lparr> analysisResumeScore_field := x, analysisAtsScore_field := y \<rparr>)))
     = report_status (fst (uploadAnalysisReport w db r)) \<and>
   (report_status (fst (uploadAnalysisReport w db r)) = 200 \<longrightarrow>
      returned_resume_score (fst (uploadAnalysisReport w db r))
        = Some (to_json (or_zero (parseInt10 (analysisResumeScore_field r)))) \<and>
      returned_ats_score (fst (uploadAnalysisReport w db r))
        = Some (to_json (or_zero (parseInt10 (analysisAtsScore_field r)))) \<and>
      (\<forall>u \<in> set (individuals (snd (uploadAnalysisReport w db r))).
         ind_id u = params_id r \<longrightarrow>
           analysisResumeScore u = or_zero (parseInt10 (analysisResumeScore_field r)) \<and>
           analysisAtsScore u = or_zero (parseInt10 (analysisAtsScore_field r)))) \<and>
   (ds \<noteq> [] \<and> list_all is_digit ds \<longrightarrow>
      parseInt10 (Some ds) = to_double False (digits_value ds)) \<and>
   (n < 2 ^ 53 \<longrightarrow> to_double False n = Fin (rat_of_nat n)) \<and>
   (2 ^ 1024 \<le> n \<longrightarrow> to_double False n = PosInf \<and> to_json (or_zero (to_double False n)) = JsonNull)"
proof -
  have small: "n < 2 ^ 53 \<longrightarrow> to_double False n = Fin (rat_of_nat n)"
    by (simp add: to_double_small)
  have big: "2 ^ 1024 \<le> n \<longrightarrow>
      to_double False n = PosInf \<and> to_json (or_zero (to_double False n)) = JsonNull"
    by (simp add: to_double_overflow or_zero_def to_json_def)
  have digits: "ds \<noteq> [] \<and> list_all is_digit ds \<longrightarrow>
      parseInt10 (Some ds) = to_double False (digits_value ds)"
    by (simp add: parseInt10_digits)
  from small big digits
    report_status_scores [where w = w and db = db and r = r and x = x and y = y]
    report_returned_scores [of w db r]
    report_stored_scores [where w = w and db = db and r = r] or_zero_zero [of "parseInt10 x"]
    or_zero_number [of "parseInt10 x"]
  show ?thesis by blast
qed

lemma excess_bits_first: "excess_bits 9007199254740993 = 1"
  by (simp add: excess_bits.simps [of 9007199254740993] excess_bits.simps [of 4503599627370496])

text \<open>
  Worked values: a score below 2^53 is kept; 2^53 + 1 is not a double and is stored as
  2^53; a score of four hundred and one digits is stored as \<open>Infinity\<close>.
\<close>

lemma digits_value_zeros:
  "fold (\<lambda>c n. 10 * n + (of_char c - 48)) (replicate k (CHR ''0'')) (m::nat) = m * 10 ^ k"
  by (induction k arbitrary: m) simp_all

lemma parseInt10_examples:
  "parseInt10 (Some ''85'') = Fin 85 \<and>
   parseInt10 (Some ''  -42abc'') = Fin (- 42) \<and>
   parseInt10 (Some ''9007199254740993'') = Fin 9007199254740992 \<and>
   parseInt10 (Some (''1'' @ replicate 400 (CHR ''0''))) = PosInf"
proof -
  have a: "parseInt10 (Some ''85'') = Fin 85 \<and> parseInt10 (Some ''  -42abc'') = Fin (- 42)"
    by (simp add: parseInt10_def is_space_def is_digit_def digits_value_def to_double_small)
  have b: "parseInt10 (Some ''9007199254740993'') = Fin 9007199254740992"
    by (simp add: parseInt10_def is_space_def is_digit_def digits_value_def to_double_def
        round_to_double_def excess_bits_first)
  have all: "list_all is_digit (''1'' @ replicate 400 (CHR ''0''))"
    by (simp add: is_digit_def list_all_iff)
  have "digits_value (''1'' @ replicate 400 (CHR ''0''))
      = fold (\<lambda>c n. 10 * n + (of_char c - 48)) (replicate 400 (CHR ''0''))
          (fold (\<lambda>c n. 10 * n + (of_char c - 48)) ''1'' 0)"
    by (simp only: digits_value_def fold_append comp_apply)
  also have "\<dots> = fold (\<lambda>c n. 10 * n + (of_char c - 48)) ''1'' 0 * 10 ^ 400"
    by (rule digits_value_zeros)
  also have "fold (\<lambda>c n. 10 * n + (of_char c - 48)) ''1'' 0 = (1::nat)"
    by simp
  finally have v: "digits_value (''1'' @ replicate 400 (CHR ''0'')) = 10 ^ 400"
    by simp
  have "(2::nat) ^ 1024 \<le> 10 ^ 400" by simp
  then have "to_double False (10 ^ 400) = PosInf"
    by (simp only: to_double_overflow if_False)
  with parseInt10_digits [OF _ all] v
  have c: "parseInt10 (Some (''1'' @ replicate 400 (CHR ''0''))) = PosInf" by simp
  from a b c show ?thesis by simp
qed

theorem report_scores_default_to_zero_witness:
  "report_status (fst (uploadAnalysisReport calm a_database (a_report_request (Some ''85'')))) = 200 \<and>
   parseInt10 (Some ''85'') = Fin 85 \<and>
   returned_resume_score (fst (uploadAnalysisReport calm a_database (a_report_request (Some ''85''))))
     = Some (JsonNumber 85) \<and>
   returned_ats_score (fst (uploadAnalysisReport calm a_database (a_report_request (Some ''85''))))
     = Some (JsonNumber 64)"
proof -
  have ok: "report_status (fst (uploadAnalysisReport calm a_database (a_report_request (Some ''85'')))) = 200"
    by (simp add: uploadAnalysisReport_def a_report_request_def calm_def a_database_def a_user_def
        falsy_def)
  have p: "parseInt10 (Some ''85'') = Fin 85"
    by (simp add: parseInt10_def is_space_def is_digit_def digits_value_def to_double_small)
  have q: "parseInt10 (Some ''64'') = Fin 64"
    by (simp add: parseInt10_def is_space_def is_digit_def digits_value_def to_double_small)
  have f: "analysisResumeScore_field (a_report_request (Some ''85'')) = Some ''85''
           \<and> analysisAtsScore_field (a_report_request (Some ''85'')) = Some ''64''"
    by (simp add: a_report_request_def)
  from report_scores_default_to_zero
    [where x = "Some ''85''" and n = 85 and w = calm and db = a_database
       and r = "a_report_request (Some ''85'')" and y = None and ds = "''85''"] ok p q f
  show ?thesis by (simp add: or_zero_def to_json_def)
qed

text \<open>
  A report whose resume score is the text \<open>N/A\<close>: the answer is 200, the score returned
  and stored is 0, and the outcome is the one of a report whose score is \<open>0\<close>.
\<close>

theorem report_score_not_a_number_counterexample:
  "parseInt10 (Some ''N/A'') = NaN \<and>
   report_status (fst (uploadAnalysisReport calm a_database (a_report_request (Some ''N/A'')))) = 200 \<and>
   returned_resume_score (fst (uploadAnalysisReport calm a_database (a_report_request (Some ''N/A''))))
     = Some (JsonNumber 0) \<and>
   map analysisResumeScore
     (individuals (snd (uploadAnalysisReport calm a_database (a_report_request (Some ''N/A'')))))
     = [Fin 0] \<and>
   uploadAnalysisReport calm a_database (a_report_request (Some ''N/A''))
     = uploadAnalysisReport calm a_database (a_report_request (Some ''0''))"
proof -
  have p: "parseInt10 (Some ''N/A'') = NaN"
    by (simp add: parseInt10_def is_space_def is_digit_def)
  have z: "parseInt10 (Some ''0'') = Fin 0"
    by (simp add: parseInt10_def is_space_def is_digit_def digits_value_def to_double_small)
  have q: "parseInt10 (Some ''64'') = Fin 64"
    by (simp add: parseInt10_def is_space_def is_digit_def digits_value_def to_double_small)
  show ?thesis
    by (simp add: p z q uploadAnalysisReport_def a_report_request_def calm_def a_database_def
        a_user_def falsy_def update_user_def or_zero_def or_text_def to_json_def)
qed

section \<open>Reproducible order\<close>






section \<open>The top-N size\<close>

lemma step_topN_ge: "number_ge (topN s) 1 \<Longrightarrow> number_ge (topN (step e s)) 1"
proof (cases e)
  case (FetchDone i r)
  then show "number_ge (topN s) 1 \<Longrightarrow> ?thesis"
    by (cases "pending s ! i"; cases r)
       (simp_all add: fetchDone_def fetchMatches_def leave_def alloc_def)
next
  case (DeleteDone i ok)
  then show "number_ge (topN s) 1 \<Longrightarrow> ?thesis"
    by (cases "pending s ! i") (simp_all add: deleteDone_def handleDelete_def leave_def alloc_def)
qed (simp_all add: startFetch_def startDelete_def handleSortChange_def handleTopNChange_def
       downloadCSV_def render_rows_def alloc_def)

lemma fold_step_topN_ge:
  "number_ge (topN s) 1 \<Longrightarrow> number_ge (topN (fold step evs s)) 1"
  by (induction evs arbitrary: s) (simp_all add: step_topN_ge)

text \<open>
  C10. The top-N size starts at 10, the change handler stores a new value only when it
  is at least 1, and no other action writes it: after every sequence of actions on the
  page, \<open>topN >= 1\<close> holds, and the handler leaves \<open>topN\<close> alone on an input that is not
  at least 1.
\<close>

theorem topN_at_least_one:
  "number_ge (topN (run evs)) 1 \<and>
   topN initial_state = Fin 10 \<and>
   topN (handleTopNChange v s) = (if number_ge v 1 then v else topN s)"
  unfolding run_def
  by (simp add: fold_step_topN_ge initial_state_def handleTopNChange_def)

theorem topN_at_least_one_witness:
  "number_ge (topN (run [TopNChange (Fin 0), TopNChange (Fin 3), TopNChange NaN, TopNChange (Fin (-2))])) 1 \<and>
   topN (run [TopNChange (Fin 0), TopNChange (Fin 3), TopNChange NaN, TopNChange (Fin (-2))]) = Fin 3 \<and>
   topN (handleTopNChange (Fin 0) initial_state) = Fin 10"
  using topN_at_least_one [of "[TopNChange (Fin 0), TopNChange (Fin 3), TopNChange NaN, TopNChange (Fin (-2))]"
      "Fin 0" initial_state]
  by (simp add: run_def handleTopNChange_def initial_state_def)

end
